theory Spec2Isabelle
  imports Complex_Main "HOL-Library.Monad_Syntax"
begin

section \<open>Strings\<close>

text \<open>
  A JavaScript string is modelled as a \<^typ>\<open>string\<close>. The three characters the CSV
  writers look for get names, since two of them cannot be written inside a literal.
\<close>

definition dquote :: char where
  "dquote = CHR 0x22"

definition newline :: char where
  "newline = CHR 0x0A"

definition comma :: char where
  "comma = CHR 0x2C"

text \<open>\<^verbatim>\<open>s.startsWith(p)\<close> and \<^verbatim>\<open>s.includes(p)\<close>, by scanning.\<close>

fun startsWith :: "string \<Rightarrow> string \<Rightarrow> bool" where
  "startsWith s [] = True"
| "startsWith [] (p # ps) = False"
| "startsWith (c # cs) (p # ps) = (c = p \<and> startsWith cs ps)"

fun str_includes :: "string \<Rightarrow> string \<Rightarrow> bool" where
  "str_includes [] p = (p = [])"
| "str_includes (c # cs) p = (startsWith (c # cs) p \<or> str_includes cs p)"

text \<open>\<^verbatim>\<open>xs.join(sep)\<close> on an array of strings.\<close>

fun join :: "string \<Rightarrow> string list \<Rightarrow> string" where
  "join sep [] = []"
| "join sep [x] = x"
| "join sep (x # y # ys) = x @ sep @ join sep (y # ys)"

section \<open>CSV escaping\<close>

text \<open>
  \<^verbatim>\<open>value.replace(/"/g, '""')\<close>: every double quote is written twice.
\<close>

fun doubleQuotes :: "string \<Rightarrow> string" where
  "doubleQuotes [] = []"
| "doubleQuotes (c # cs) = (if c = dquote then dquote # dquote # doubleQuotes cs else c # doubleQuotes cs)"

text \<open>
  \<^verbatim>\<open>escapeCSV\<close>, the same body in \<^verbatim>\<open>CSVExportService\<close> and in
  \<^verbatim>\<open>PricingExportService\<close>: the empty string first, then the test for a comma, a
  double quote or a line feed.
\<close>

definition escapeCSV :: "string \<Rightarrow> string" where
  "escapeCSV v =
     (if v = [] then []
      else if str_includes v [comma] \<or> str_includes v [dquote] \<or> str_includes v [newline]
        then [dquote] @ doubleQuotes v @ [dquote]
      else v)"

text \<open>
  The reader's side, which is not code of this program: how a CSV reader following
  RFC 4180 decodes one field. A field that opens with a double quote runs to the closing
  quote, a doubled quote inside standing for one quote; any other field is taken as it
  is, and may hold no quote, comma or line feed. \<open>None\<close> is a malformed field.
\<close>

fun rfc4180_quoted :: "string \<Rightarrow> string option" where
  "rfc4180_quoted [] = None"
| "rfc4180_quoted [c] = (if c = dquote then Some [] else None)"
| "rfc4180_quoted (c # d # cs) =
     (if c = dquote
        then (if d = dquote then map_option ((#) dquote) (rfc4180_quoted cs) else None)
      else map_option ((#) c) (rfc4180_quoted (d # cs)))"

definition rfc4180_field :: "string \<Rightarrow> string option" where
  "rfc4180_field f =
     (case f of
        [] \<Rightarrow> Some []
      | c # cs \<Rightarrow>
          if c = dquote then rfc4180_quoted cs
          else if comma \<in> set f \<or> dquote \<in> set f \<or> newline \<in> set f then None
          else Some f)"

section \<open>Numbers\<close>

text \<open>
  A JavaScript \<^verbatim>\<open>number\<close>, as far as the code below looks at one: it is compared,
  tested for truthiness and printed. The finite values are rationals (every double is
  one), so comparison is exact; the three special values are kept apart.
\<close>

datatype jsnum = NaN | NegInf | Fin rat | PosInf

text \<open>\<^verbatim>\<open>a < b\<close>: false as soon as one side is \<^verbatim>\<open>NaN\<close>.\<close>

fun js_lt :: "jsnum \<Rightarrow> jsnum \<Rightarrow> bool" where
  "js_lt NaN b = False"
| "js_lt a NaN = False"
| "js_lt NegInf NegInf = False"
| "js_lt NegInf b = True"
| "js_lt (Fin x) NegInf = False"
| "js_lt (Fin x) (Fin y) = (x < y)"
| "js_lt (Fin x) PosInf = True"
| "js_lt PosInf b = False"

text \<open>Truthiness of a number: everything but \<^verbatim>\<open>NaN\<close> and zero.\<close>

definition truthy :: "jsnum \<Rightarrow> bool" where
  "truthy x = (x \<noteq> NaN \<and> x \<noteq> Fin 0)"

text \<open>
  An optional price, \<^verbatim>\<open>number | undefined\<close>, used as a condition
  (\<^verbatim>\<open>p.registrationPrice\<close>), and the idiom \<^verbatim>\<open>price || Infinity\<close>.
\<close>

definition usable :: "jsnum option \<Rightarrow> bool" where
  "usable p = (case p of None \<Rightarrow> False | Some x \<Rightarrow> truthy x)"

definition orInfinity :: "jsnum option \<Rightarrow> jsnum" where
  "orInfinity p = (case p of None \<Rightarrow> PosInf | Some x \<Rightarrow> if truthy x then x else PosInf)"

text \<open>
  Arithmetic, exact on the finite values: the rounding of doubles is not modelled. A
  statement below that speaks of a sum, a difference or a quotient names the operation
  and does not depend on its value; the examples evaluate them on small whole numbers,
  where doubles are exact too.
\<close>

fun js_neg :: "jsnum \<Rightarrow> jsnum" where
  "js_neg NaN = NaN"
| "js_neg NegInf = PosInf"
| "js_neg (Fin x) = Fin (- x)"
| "js_neg PosInf = NegInf"

fun js_add :: "jsnum \<Rightarrow> jsnum \<Rightarrow> jsnum" where
  "js_add NaN b = NaN"
| "js_add a NaN = NaN"
| "js_add (Fin x) (Fin y) = Fin (x + y)"
| "js_add (Fin x) b = b"
| "js_add a (Fin y) = a"
| "js_add NegInf NegInf = NegInf"
| "js_add PosInf PosInf = PosInf"
| "js_add NegInf PosInf = NaN"
| "js_add PosInf NegInf = NaN"

definition js_sub :: "jsnum \<Rightarrow> jsnum \<Rightarrow> jsnum" where
  "js_sub a b = js_add a (js_neg b)"

text \<open>Division by a positive count, the only divisor the code uses.\<close>

fun js_div_count :: "jsnum \<Rightarrow> nat \<Rightarrow> jsnum" where
  "js_div_count (Fin x) n = (if n = 0 then (if x = 0 then NaN else if x < 0 then NegInf else PosInf)
                             else Fin (x / of_nat n))"
| "js_div_count a n = a"

text \<open>
  \<^verbatim>\<open>Math.min(...xs)\<close> and \<^verbatim>\<open>Math.max(...xs)\<close>: \<^verbatim>\<open>Infinity\<close> and
  \<^verbatim>\<open>-Infinity\<close> on no arguments, \<^verbatim>\<open>NaN\<close> as soon as one argument is.
\<close>

definition js_min2 :: "jsnum \<Rightarrow> jsnum \<Rightarrow> jsnum" where
  "js_min2 a b = (if a = NaN \<or> b = NaN then NaN else if js_lt b a then b else a)"

definition js_max2 :: "jsnum \<Rightarrow> jsnum \<Rightarrow> jsnum" where
  "js_max2 a b = (if a = NaN \<or> b = NaN then NaN else if js_lt a b then b else a)"

definition Math_min :: "jsnum list \<Rightarrow> jsnum" where
  "Math_min xs = foldl js_min2 PosInf xs"

definition Math_max :: "jsnum list \<Rightarrow> jsnum" where
  "Math_max xs = foldl js_max2 NegInf xs"

text \<open>Whole numbers in decimal, as \<^verbatim>\<open>String(n)\<close> and template strings print them.\<close>

fun digits :: "nat \<Rightarrow> string" where
  "digits n = (if n < 10 then [''0123456789'' ! n]
               else digits (n div 10) @ [''0123456789'' ! (n mod 10)])"

declare digits.simps [simp del]

definition show_int :: "int \<Rightarrow> string" where
  "show_int n = (if n < 0 then CHR ''-'' # digits (nat (- n)) else digits (nat n))"

text \<open>
  \<^verbatim>\<open>x.toFixed(2)\<close>: the nearest number with two decimals, the larger one on a tie,
  the sign taken off first. From \<open>10\<^sup>2\<^sup>1\<close> on the runtime switches to exponent notation,
  which is not reproduced here.
\<close>

definition toFixed2 :: "jsnum \<Rightarrow> string" where
  "toFixed2 x =
     (case x of
        NaN \<Rightarrow> ''NaN''
      | PosInf \<Rightarrow> ''Infinity''
      | NegInf \<Rightarrow> ''-Infinity''
      | Fin r \<Rightarrow>
          (let n = nat \<lfloor>\<bar>r\<bar> * 100 + 1 / 2\<rfloor>;
               cents = n mod 100
           in (if r < 0 then ''-'' else [])
              @ digits (n div 100) @ ''.'' @ digits (cents div 10) @ digits (cents mod 10)))"

section \<open>The data model\<close>

text \<open>
  The interfaces of \<^verbatim>\<open>types/index.ts\<close>. An optional property is an \<open>option\<close>. A
  property name that two interfaces share, or that would hide a variable, is
  lengthened: \<open>dns_a\<close> \<open>\<dots>\<close> \<open>dns_soa\<close> are \<^verbatim>\<open>DNSData\<close>'s \<^verbatim>\<open>a\<close> \<open>\<dots>\<close> \<^verbatim>\<open>soa\<close>,
  \<open>subdomains_sd\<close> is \<^verbatim>\<open>SubdomainData.subdomains\<close>, \<open>domain_ar\<close> and \<open>pricing_ar\<close>
  are \<^verbatim>\<open>DomainAvailabilityResult\<close>'s \<^verbatim>\<open>domain\<close> and \<^verbatim>\<open>pricing\<close>, and
  \<open>subdomains_opt\<close> is \<^verbatim>\<open>InspectionOptions.subdomains\<close>. Whole-number properties
  (ports, priorities, counts, days) are integers; a \<^verbatim>\<open>Date\<close> is its time in
  milliseconds.
\<close>

record SubdomainSources =
  dnsEnumeration :: "string list"
  certificateTransparency :: "string list"
  commonNames :: "string list"

record SubdomainData =
  subdomains_sd :: "string list"
  sources :: SubdomainSources
  totalFound :: int

record WhoisData =
  registrar :: "string option"
  registrationDate :: "string option"
  expirationDate :: "string option"
  nameServers :: "string list option"
  registrantCountry :: "string option"
  status :: "string list option"

record MxRecord =
  priority :: int
  exchange :: string

record SoaRecord =
  primary :: string
  admin :: string
  serial :: int
  refresh :: int
  retry :: int
  expiration :: int
  minimum :: int

record DNSData =
  dns_a :: "string list option"
  dns_aaaa :: "string list option"
  dns_mx :: "MxRecord list option"
  dns_ns :: "string list option"
  dns_txt :: "string list option"
  dns_cname :: "string list option"
  dns_soa :: "SoaRecord option"

record SSLData =
  issuer :: "string option"
  subject :: "string option"
  validFrom :: "string option"
  validTo :: "string option"
  fingerprint :: "string option"
  serialNumber :: "string option"
  signatureAlgorithm :: "string option"
  keySize :: "int option"
  isValid :: "bool option"
  daysUntilExpiry :: "int option"

datatype SecurityLevel = LOW | MEDIUM | HIGH | CRITICAL

record SecurityData =
  threatLevel :: "SecurityLevel option"
  blacklisted :: "bool option"
  malwareDetected :: "bool option"
  phishingRisk :: "bool option"
  reputation :: "jsnum option"

record ServiceEntry =
  port :: int
  protocol :: string
  service :: string
  version :: "string option"

record Location =
  country :: string
  city :: string
  coordinates :: "(jsnum \<times> jsnum) option"

record NetworkData =
  openPorts :: "int list option"
  services :: "ServiceEntry list option"
  location :: "Location option"

record DomainPricing =
  provider :: string
  available :: bool
  registrationPrice :: "jsnum option"
  renewalPrice :: "jsnum option"
  currency :: string
  url :: string
  error :: "string option"

record DomainAvailabilityResult =
  domain_ar :: string
  isAvailable :: bool
  pricing_ar :: "DomainPricing list"
  checkedAt :: int

record InspectionOptions =
  verbose :: bool
  quick :: bool
  banner :: bool
  exportCsv :: "string option"
  exportJson :: "string option"
  subdomains_opt :: bool
  checkPricing :: bool

text \<open>
  What a slot of a report can hold at run time. The gathering code is typed
  \<^verbatim>\<open>Promise<any>\<close> and the report is filled from an array of settled results, so a
  slot holds whichever object was put there: one of the payloads below, \<^verbatim>\<open>null\<close>, or
  nothing at all when the property was never assigned.
\<close>

datatype payload =
    Whois WhoisData
  | Dns DNSData
  | Ssl SSLData
  | Security SecurityData
  | Network NetworkData
  | Subdomains SubdomainData
  | Pricing DomainAvailabilityResult

datatype slotval = Undefined | Null | Value payload

record DomainInfo =
  domain :: string
  whois :: slotval
  dns :: slotval
  ssl :: slotval
  security :: slotval
  network :: slotval
  subdomains :: slotval
  pricing :: slotval

text \<open>
  Reading a slot the way \<^verbatim>\<open>info.whois?.registrar\<close> does: \<^verbatim>\<open>undefined\<close> unless the
  slot holds an object that has the property. The interfaces share no property name, so
  only the payload of the right kind has it.
\<close>

definition whoisOf :: "slotval \<Rightarrow> WhoisData option" where
  "whoisOf v = (case v of Value (Whois w) \<Rightarrow> Some w | _ \<Rightarrow> None)"

definition dnsOf :: "slotval \<Rightarrow> DNSData option" where
  "dnsOf v = (case v of Value (Dns d) \<Rightarrow> Some d | _ \<Rightarrow> None)"

definition sslOf :: "slotval \<Rightarrow> SSLData option" where
  "sslOf v = (case v of Value (Ssl c) \<Rightarrow> Some c | _ \<Rightarrow> None)"

definition networkOf :: "slotval \<Rightarrow> NetworkData option" where
  "networkOf v = (case v of Value (Network n) \<Rightarrow> Some n | _ \<Rightarrow> None)"

definition subdomainsOf :: "slotval \<Rightarrow> SubdomainData option" where
  "subdomainsOf v = (case v of Value (Subdomains d) \<Rightarrow> Some d | _ \<Rightarrow> None)"

definition pricingOf :: "slotval \<Rightarrow> DomainAvailabilityResult option" where
  "pricingOf v = (case v of Value (Pricing r) \<Rightarrow> Some r | _ \<Rightarrow> None)"

text \<open>A slot used as a condition (\<^verbatim>\<open>!info.ssl\<close>): any object is truthy.\<close>

definition present :: "slotval \<Rightarrow> bool" where
  "present v = (case v of Value _ \<Rightarrow> True | _ \<Rightarrow> False)"

text \<open>\<^verbatim>\<open>s || ''\<close> on an optional string, and \<^verbatim>\<open>xs?.join('; ') || ''\<close>.\<close>

definition orEmpty :: "string option \<Rightarrow> string" where
  "orEmpty s = (case s of None \<Rightarrow> [] | Some t \<Rightarrow> t)"

definition joined :: "string list option \<Rightarrow> string" where
  "joined xs = (case xs of None \<Rightarrow> [] | Some ys \<Rightarrow> join ''; '' ys)"

section \<open>Pricing quotes\<close>

text \<open>
  \<^verbatim>\<open>pricing.filter(p => p.available && p.registrationPrice)\<close>, the first line of
  \<^verbatim>\<open>analyzePricing\<close> and the filter of \<^verbatim>\<open>processPricingData\<close>.
\<close>

definition validPricing :: "DomainPricing list \<Rightarrow> DomainPricing list" where
  "validPricing ps = filter (\<lambda>p. available p \<and> usable (registrationPrice p)) ps"

text \<open>
  \<^verbatim>\<open>xs.reduce((prev, curr) => (price(curr) || Infinity) < (price(prev) || Infinity) ? curr : prev)\<close>
  on an array whose first element is \<open>v\<close>: with no initial value the first element
  starts as \<^verbatim>\<open>prev\<close>.
\<close>

definition cheaper :: "(DomainPricing \<Rightarrow> jsnum option) \<Rightarrow> DomainPricing \<Rightarrow> DomainPricing \<Rightarrow> DomainPricing" where
  "cheaper price prev cur =
     (if js_lt (orInfinity (price cur)) (orInfinity (price prev)) then cur else prev)"

definition cheapest :: "(DomainPricing \<Rightarrow> jsnum option) \<Rightarrow> DomainPricing \<Rightarrow> DomainPricing list \<Rightarrow> DomainPricing" where
  "cheapest price v vs = foldl (cheaper price) v vs"

subsection \<open>The analysis of the pricing export\<close>

record PriceRef =
  ref_provider :: string
  ref_price :: "jsnum option"
  ref_currency :: string

record PriceSpan =
  span_min :: jsnum
  span_max :: jsnum
  span_spread :: jsnum

record PriceRange =
  range_registration :: PriceSpan
  range_renewal :: "PriceSpan option"

record PricingAnalysis =
  cheapestRegistration :: "PriceRef option"
  cheapestRenewal :: "PriceRef option"
  priceRange :: "PriceRange option"
  avgRegistrationPrice :: "jsnum option"
  avgRenewalPrice :: "jsnum option"
  providerCount :: nat

text \<open>
  \<^verbatim>\<open>validPricing.map(p => p.registrationPrice!).filter(p => p > 0)\<close>: a missing price
  is \<^verbatim>\<open>undefined\<close>, which is not greater than zero.
\<close>

definition positivePrices :: "(DomainPricing \<Rightarrow> jsnum option) \<Rightarrow> DomainPricing list \<Rightarrow> jsnum list" where
  "positivePrices price vs =
     List.map_filter (\<lambda>p. case price p of None \<Rightarrow> None
                          | Some x \<Rightarrow> if js_lt (Fin 0) x then Some x else None) vs"

definition span :: "jsnum list \<Rightarrow> PriceSpan" where
  "span xs = \<lparr>span_min = Math_min xs, span_max = Math_max xs,
              span_spread = js_sub (Math_max xs) (Math_min xs)\<rparr>"

definition average :: "jsnum list \<Rightarrow> jsnum option" where
  "average xs = (if length xs > 0 then Some (js_div_count (foldl js_add (Fin 0) xs) (length xs)) else None)"

definition unavailable :: PricingAnalysis where
  "unavailable = \<lparr>cheapestRegistration = None, cheapestRenewal = None, priceRange = None,
                   avgRegistrationPrice = None, avgRenewalPrice = None, providerCount = 0\<rparr>"

definition analyzePricing :: "DomainPricing list \<Rightarrow> PricingAnalysis" where
  "analyzePricing ps =
     (case validPricing ps of
        [] \<Rightarrow> unavailable
      | v # vs \<Rightarrow>
          (let regPrices = positivePrices registrationPrice (v # vs);
               renewalPrices = positivePrices renewalPrice (v # vs);
               cheapestReg = cheapest registrationPrice v vs;
               cheapestRen = cheapest renewalPrice v vs
           in \<lparr>cheapestRegistration =
                  Some \<lparr>ref_provider = provider cheapestReg,
                        ref_price = registrationPrice cheapestReg,
                        ref_currency = currency cheapestReg\<rparr>,
                cheapestRenewal =
                  Some \<lparr>ref_provider = provider cheapestRen,
                        ref_price = renewalPrice cheapestRen,
                        ref_currency = currency cheapestRen\<rparr>,
                priceRange =
                  Some \<lparr>range_registration = span regPrices,
                        range_renewal = (if length renewalPrices > 0 then Some (span renewalPrices) else None)\<rparr>,
                avgRegistrationPrice = average regPrices,
                avgRenewalPrice = average renewalPrices,
                providerCount = length (v # vs)\<rparr>))"

text \<open>
  The specification's valid quote, in its words: available, no error annotation, and a
  registration price present.
\<close>

definition valid_quote_spec :: "DomainPricing \<Rightarrow> bool" where
  "valid_quote_spec p = (available p \<and> error p = None \<and> registrationPrice p \<noteq> None)"

section \<open>The CSV export service\<close>

subsection \<open>Threat assessment\<close>

text \<open>
  \<^verbatim>\<open>assessThreats\<close>. The clock (\<^verbatim>\<open>Date.now()\<close>) and the date parser
  (\<^verbatim>\<open>new Date(s).getTime()\<close>, \<open>None\<close> for an invalid date, whose time is \<^verbatim>\<open>NaN\<close>)
  belong to the runtime and are parameters. The four tests stand in the order of the
  source: expiry, missing certificate, recent registration, invalid certificate.
\<close>

record runtime =
  now :: int
  parseDate :: "string \<Rightarrow> int option"

definition expiryThreat :: "DomainInfo \<Rightarrow> string list" where
  "expiryThreat info =
     (case sslOf (ssl info) of
        None \<Rightarrow> []
      | Some c \<Rightarrow>
          (case daysUntilExpiry c of
             None \<Rightarrow> []
           | Some d \<Rightarrow> if d < 30 then [''SSL expires in '' @ show_int d @ '' days''] else []))"

definition missingThreat :: "DomainInfo \<Rightarrow> string list" where
  "missingThreat info = (if \<not> present (ssl info) then [''No SSL certificate detected''] else [])"

definition recentThreat :: "runtime \<Rightarrow> DomainInfo \<Rightarrow> string list" where
  "recentThreat rt info =
     (case whoisOf (whois info) of
        None \<Rightarrow> []
      | Some w \<Rightarrow>
          (case registrationDate w of
             None \<Rightarrow> []
           | Some s \<Rightarrow>
               if s = [] then []
               else (case parseDate rt s of
                       None \<Rightarrow> []
                     | Some t \<Rightarrow>
                         if (of_int (now rt - t) :: rat) / (1000 * 60 * 60 * 24) < 30
                         then [''Domain registered recently''] else [])))"

definition invalidThreat :: "DomainInfo \<Rightarrow> string list" where
  "invalidThreat info =
     (case sslOf (ssl info) of
        None \<Rightarrow> []
      | Some c \<Rightarrow> if isValid c = Some False then [''Invalid SSL certificate''] else [])"

definition assessThreats :: "runtime \<Rightarrow> DomainInfo \<Rightarrow> string list" where
  "assessThreats rt info =
     expiryThreat info @ missingThreat info @ recentThreat rt info @ invalidThreat info"

definition getThreatLevel :: "string list \<Rightarrow> string" where
  "getThreatLevel threats =
     (if length threats = 0 then ''LOW''
      else if list_ex (\<lambda>t. str_includes t ''Invalid SSL'' \<or> str_includes t ''No SSL'') threats then ''HIGH''
      else if list_ex (\<lambda>t. str_includes t ''expires'') threats then ''MEDIUM''
      else ''LOW'')"

text \<open>
  The rule order of the specification, in its words: expiry, missing certificate,
  invalid certificate, recent registration.
\<close>

definition findings_spec_order :: "runtime \<Rightarrow> DomainInfo \<Rightarrow> string list" where
  "findings_spec_order rt info =
     expiryThreat info @ missingThreat info @ invalidThreat info @ recentThreat rt info"

subsection \<open>The pricing cells of a row\<close>

record PricingCells =
  cell_isAvailable :: string
  cell_cheapestRegistration :: string
  cell_cheapestRenewal :: string
  cell_bestRegProvider :: string
  cell_bestRenewalProvider :: string
  cell_allPricing :: string

text \<open>\<^verbatim>\<open>price?.toFixed(2) || 'N/A'\<close>: \<^verbatim>\<open>toFixed\<close> never returns the empty string.\<close>

definition fixedOrNA :: "jsnum option \<Rightarrow> string" where
  "fixedOrNA p = (case p of None \<Rightarrow> ''N/A'' | Some x \<Rightarrow> toFixed2 x)"

definition yesNo :: "bool \<Rightarrow> string" where
  "yesNo b = (if b then ''Yes'' else ''No'')"

definition blankCells :: "string \<Rightarrow> PricingCells" where
  "blankCells avail =
     \<lparr>cell_isAvailable = avail, cell_cheapestRegistration = [], cell_cheapestRenewal = [],
      cell_bestRegProvider = [], cell_bestRenewalProvider = [], cell_allPricing = []\<rparr>"

text \<open>
  \<^verbatim>\<open>processPricingData\<close>. An object in the slot that is not a pricing result has neither
  \<^verbatim>\<open>pricing\<close> nor \<^verbatim>\<open>isAvailable\<close>: no quotes, and \<^verbatim>\<open>'No'\<close>.
\<close>

definition processPricingData :: "slotval \<Rightarrow> PricingCells" where
  "processPricingData pr =
     (if \<not> present pr then blankCells ''Unknown''
      else
        (let avail = yesNo (case pricingOf pr of None \<Rightarrow> False | Some r \<Rightarrow> isAvailable r) in
         case validPricing (case pricingOf pr of None \<Rightarrow> [] | Some r \<Rightarrow> pricing_ar r) of
           [] \<Rightarrow> blankCells avail
         | v # vs \<Rightarrow>
             (let cheapestReg = cheapest registrationPrice v vs;
                  cheapestRen = cheapest renewalPrice v vs;
                  allPricingText =
                    join '' | ''
                      (map (\<lambda>p. provider p @ '': Reg $'' @ fixedOrNA (registrationPrice p)
                                  @ '' / Ren $'' @ fixedOrNA (renewalPrice p)) (v # vs))
              in \<lparr>cell_isAvailable = avail,
                   cell_cheapestRegistration = ''$'' @ fixedOrNA (registrationPrice cheapestReg),
                   cell_cheapestRenewal = ''$'' @ fixedOrNA (renewalPrice cheapestRen),
                   cell_bestRegProvider = provider cheapestReg,
                   cell_bestRenewalProvider = provider cheapestRen,
                   cell_allPricing = allPricingText\<rparr>)))"

subsection \<open>Rows\<close>

definition csvHeader :: string where
  "csvHeader = join '',''
     [''Domain'', ''Registrar'', ''Registration Date'', ''Expiration Date'', ''Registrant Country'',
      ''Status'', ''Name Servers'', ''IPv4 Addresses'', ''IPv6 Addresses'', ''MX Records'',
      ''TXT Records'', ''SSL Issuer'', ''SSL Subject'', ''SSL Valid From'', ''SSL Valid To'',
      ''SSL Days Until Expiry'', ''SSL Valid'', ''Open Ports'', ''Services'', ''Subdomains Found'',
      ''Sample Subdomains'', ''Available for Registration'', ''Cheapest Registration Price'',
      ''Cheapest Renewal Price'', ''Best Registration Provider'', ''Best Renewal Provider'',
      ''All Pricing Data'', ''Threat Level'', ''Threats'']"

text \<open>
  The state of a \<^verbatim>\<open>CSVExportService\<close> is its array \<^verbatim>\<open>csvData\<close>; the constructor
  pushes the header.
\<close>

definition newCSVExportService :: "string list" where
  "newCSVExportService = [csvHeader]"

definition boolString :: "bool \<Rightarrow> string" where
  "boolString b = (if b then ''true'' else ''false'')"

text \<open>
  The cells of a row, before escaping. \<^verbatim>\<open>orEmpty\<close> also stands for \<^verbatim>\<open>|| ''\<close> after a
  conversion that cannot yield the empty string; the subdomain count falls back to
  \<^verbatim>\<open>'0'\<close>.
\<close>

definition rowCells :: "runtime \<Rightarrow> DomainInfo \<Rightarrow> string list" where
  "rowCells rt domainInfo =
     (let w = whoisOf (whois domainInfo);
          d = dnsOf (dns domainInfo);
          c = sslOf (ssl domainInfo);
          n = networkOf (network domainInfo);
          sd = subdomainsOf (subdomains domainInfo);
          nameServersText = joined (Option.bind w nameServers);
          ipv4Addresses = joined (Option.bind d dns_a);
          ipv6Addresses = joined (Option.bind d dns_aaaa);
          mxRecords = joined (map_option (map (\<lambda>m. show_int (priority m) @ '' '' @ exchange m)) (Option.bind d dns_mx));
          txtRecords = joined (map_option (take 3) (Option.bind d dns_txt));
          openPortsText = joined (map_option (map show_int) (Option.bind n openPorts));
          servicesText = joined (map_option (map (\<lambda>s. show_int (port s) @ '':'' @ service s)) (Option.bind n services));
          statusText = joined (Option.bind w status);
          subdomainCount = (case sd of None \<Rightarrow> ''0'' | Some x \<Rightarrow> show_int (totalFound x));
          sampleSubdomains = joined (map_option (\<lambda>x. take 5 (subdomains_sd x)) sd);
          pricingData = processPricingData (pricing domainInfo);
          threats = assessThreats rt domainInfo;
          level = getThreatLevel threats
      in [domain domainInfo,
          orEmpty (Option.bind w registrar),
          orEmpty (Option.bind w registrationDate),
          orEmpty (Option.bind w expirationDate),
          orEmpty (Option.bind w registrantCountry),
          statusText,
          nameServersText,
          ipv4Addresses,
          ipv6Addresses,
          mxRecords,
          txtRecords,
          orEmpty (Option.bind c issuer),
          orEmpty (Option.bind c subject),
          orEmpty (Option.bind c validFrom),
          orEmpty (Option.bind c validTo),
          orEmpty (map_option show_int (Option.bind c daysUntilExpiry)),
          orEmpty (map_option boolString (Option.bind c isValid)),
          openPortsText,
          servicesText,
          subdomainCount,
          sampleSubdomains,
          cell_isAvailable pricingData,
          cell_cheapestRegistration pricingData,
          cell_cheapestRenewal pricingData,
          cell_bestRegProvider pricingData,
          cell_bestRenewalProvider pricingData,
          cell_allPricing pricingData,
          level,
          join ''; '' threats])"

definition addDomain :: "runtime \<Rightarrow> DomainInfo \<Rightarrow> string list \<Rightarrow> string list" where
  "addDomain rt domainInfo csvData = csvData @ [join '','' (map escapeCSV (rowCells rt domainInfo))]"

definition getRowCount :: "string list \<Rightarrow> int" where
  "getRowCount csvData = int (length csvData) - 1"

text \<open>The text \<^verbatim>\<open>exportToFile\<close> writes: the lines joined by line feeds.\<close>

definition csvContent :: "string list \<Rightarrow> string" where
  "csvContent csvData = join [newline] csvData"

section \<open>The orchestrator\<close>

text \<open>
  An awaited call either resolves with a value or throws; \<^verbatim>\<open>Promise.allSettled\<close>
  turns a promise into a settled result, whose rejection carries the reason's message
  when it has one.
\<close>

datatype 'a outcome = Resolved 'a | Failed string

datatype 'a settled = Fulfilled 'a | Rejected "string option"

text \<open>
  What the six services answer for one domain. The services (WHOIS, DNS, certificate,
  network, subdomains, pricing) are the outside world of the orchestrator.
\<close>

record sourceOutcomes =
  whoisLookup :: "WhoisData outcome"
  dnsLookup :: "DNSData outcome"
  getCertificate :: "SSLData outcome"
  getNetworkInfo :: "NetworkData outcome"
  discoverSubdomains :: "SubdomainData outcome"
  pricingCheck :: "DomainAvailabilityResult outcome"

text \<open>
  The six \<^verbatim>\<open>gather\<dots>Intelligence\<close> methods share one shape: the service's result, or
  \<^verbatim>\<open>null\<close> from the \<^verbatim>\<open>catch\<close> block. The promise they return is fulfilled either way.
\<close>

definition gatherWhoisIntelligence :: "WhoisData outcome \<Rightarrow> payload option settled" where
  "gatherWhoisIntelligence r = Fulfilled (case r of Resolved x \<Rightarrow> Some (Whois x) | Failed e \<Rightarrow> None)"

definition gatherDnsIntelligence :: "DNSData outcome \<Rightarrow> payload option settled" where
  "gatherDnsIntelligence r = Fulfilled (case r of Resolved x \<Rightarrow> Some (Dns x) | Failed e \<Rightarrow> None)"

definition gatherSslIntelligence :: "SSLData outcome \<Rightarrow> payload option settled" where
  "gatherSslIntelligence r = Fulfilled (case r of Resolved x \<Rightarrow> Some (Ssl x) | Failed e \<Rightarrow> None)"

definition gatherNetworkIntelligence :: "NetworkData outcome \<Rightarrow> payload option settled" where
  "gatherNetworkIntelligence r = Fulfilled (case r of Resolved x \<Rightarrow> Some (Network x) | Failed e \<Rightarrow> None)"

definition gatherSubdomainIntelligence :: "SubdomainData outcome \<Rightarrow> payload option settled" where
  "gatherSubdomainIntelligence r = Fulfilled (case r of Resolved x \<Rightarrow> Some (Subdomains x) | Failed e \<Rightarrow> None)"

definition gatherPricingIntelligence :: "DomainAvailabilityResult outcome \<Rightarrow> payload option settled" where
  "gatherPricingIntelligence r = Fulfilled (case r of Resolved x \<Rightarrow> Some (Pricing x) | Failed e \<Rightarrow> None)"

text \<open>
  \<^verbatim>\<open>results[resultIndex].status === 'fulfilled' ? results[resultIndex].value : null\<close>.
  Reading past the end of \<^verbatim>\<open>results\<close> gives \<^verbatim>\<open>undefined\<close>, whose \<^verbatim>\<open>status\<close>
  throws: \<open>None\<close>, which the surrounding \<^verbatim>\<open>try\<close> catches.
\<close>

definition settledValue :: "payload option settled \<Rightarrow> slotval" where
  "settledValue r =
     (case r of
        Fulfilled v \<Rightarrow> (case v of None \<Rightarrow> Null | Some x \<Rightarrow> Value x)
      | Rejected e \<Rightarrow> Null)"

definition resultAt :: "payload option settled list \<Rightarrow> nat \<Rightarrow> slotval option" where
  "resultAt results i = (if i < length results then Some (settledValue (results ! i)) else None)"

definition emptyInfo :: "string \<Rightarrow> DomainInfo" where
  "emptyInfo d = \<lparr>domain = d, whois = Undefined, dns = Undefined, ssl = Undefined,
                  security = Undefined, network = Undefined, subdomains = Undefined,
                  pricing = Undefined\<rparr>"

text \<open>
  \<^verbatim>\<open>investigate\<close>, the single-domain path, up to the report it hands to rendering and
  export: the promises in the order of the source, then the positional read with
  \<^verbatim>\<open>resultIndex\<close>.
\<close>

definition investigate :: "InspectionOptions \<Rightarrow> sourceOutcomes \<Rightarrow> string \<Rightarrow> DomainInfo option" where
  "investigate opts src d =
     (let results =
            [gatherWhoisIntelligence (whoisLookup src),
             gatherDnsIntelligence (dnsLookup src),
             gatherSslIntelligence (getCertificate src)]
            @ (if quick opts then [] else [gatherNetworkIntelligence (getNetworkInfo src)])
            @ (if subdomains_opt opts then [gatherSubdomainIntelligence (discoverSubdomains src)] else [])
            @ (if checkPricing opts then [gatherPricingIntelligence (pricingCheck src)] else [])
      in do {
        w \<leftarrow> resultAt results 0;
        n \<leftarrow> resultAt results 1;
        c \<leftarrow> resultAt results 2;
        (info, i) \<leftarrow> Some ((emptyInfo d)\<lparr>whois := w, dns := n, ssl := c\<rparr>, 3);
        (info, i) \<leftarrow>
          (if \<not> quick opts
           then do { v \<leftarrow> resultAt results i; Some (info\<lparr>network := v\<rparr>, i + 1) }
           else Some (info, i));
        (info, i) \<leftarrow>
          (if subdomains_opt opts
           then do { v \<leftarrow> resultAt results i; Some (info\<lparr>subdomains := v\<rparr>, i + 1) }
           else Some (info, i));
        (if checkPricing opts
         then do { v \<leftarrow> resultAt results i; Some (info\<lparr>pricing := v\<rparr>) }
         else Some info)
      })"

text \<open>
  \<^verbatim>\<open>investigateSingle\<close>, the path \<^verbatim>\<open>investigateMultiple\<close> takes for each domain of a
  batch. Its promise array ends with the subdomain promise, and nothing assigns
  \<^verbatim>\<open>domainInfo.pricing\<close>.
\<close>

definition investigateSingle :: "InspectionOptions \<Rightarrow> sourceOutcomes \<Rightarrow> string \<Rightarrow> DomainInfo option" where
  "investigateSingle opts src d =
     (let results =
            [gatherWhoisIntelligence (whoisLookup src),
             gatherDnsIntelligence (dnsLookup src),
             gatherSslIntelligence (getCertificate src)]
            @ (if quick opts then [] else [gatherNetworkIntelligence (getNetworkInfo src)])
            @ (if subdomains_opt opts then [gatherSubdomainIntelligence (discoverSubdomains src)] else [])
      in do {
        w \<leftarrow> resultAt results 0;
        n \<leftarrow> resultAt results 1;
        c \<leftarrow> resultAt results 2;
        (info, i) \<leftarrow> Some ((emptyInfo d)\<lparr>whois := w, dns := n, ssl := c\<rparr>, 3);
        (info, i) \<leftarrow>
          (if \<not> quick opts
           then do { v \<leftarrow> resultAt results i; Some (info\<lparr>network := v\<rparr>, i + 1) }
           else Some (info, i));
        (if subdomains_opt opts
         then do { v \<leftarrow> resultAt results i; Some (info\<lparr>subdomains := v\<rparr>) }
         else Some info)
      })"

text \<open>The optional properties of a report, and those that were assigned.\<close>

datatype slot = WhoisSlot | DnsSlot | SslSlot | SecuritySlot | NetworkSlot | SubdomainsSlot | PricingSlot

definition slotOf :: "DomainInfo \<Rightarrow> slot \<Rightarrow> slotval" where
  "slotOf info s =
     (case s of
        WhoisSlot \<Rightarrow> whois info
      | DnsSlot \<Rightarrow> dns info
      | SslSlot \<Rightarrow> ssl info
      | SecuritySlot \<Rightarrow> security info
      | NetworkSlot \<Rightarrow> network info
      | SubdomainsSlot \<Rightarrow> subdomains info
      | PricingSlot \<Rightarrow> pricing info)"

definition populated :: "DomainInfo \<Rightarrow> slot set" where
  "populated info =
     set (filter (\<lambda>s. slotOf info s \<noteq> Undefined)
            [WhoisSlot, DnsSlot, SslSlot, SecuritySlot, NetworkSlot, SubdomainsSlot, PricingSlot])"

text \<open>
  The active sources of a run, in the specification's words: WHOIS, name resolution and
  certificate always; the port scan unless \<^verbatim>\<open>quick\<close>; subdomains and pricing when asked
  for.
\<close>

definition activeSources :: "InspectionOptions \<Rightarrow> slot set" where
  "activeSources opts =
     {WhoisSlot, DnsSlot, SslSlot}
     \<union> (if quick opts then {} else {NetworkSlot})
     \<union> (if subdomains_opt opts then {SubdomainsSlot} else {})
     \<union> (if checkPricing opts then {PricingSlot} else {})"

section \<open>The pricing service\<close>

subsection \<open>Availability\<close>

text \<open>
  The fields \<^verbatim>\<open>quickAvailabilityCheck\<close> reads from the resolver's answer:
  \<^verbatim>\<open>data.Status\<close> and, when \<^verbatim>\<open>data.Answer\<close> is there, its length. The reply's
  \<^verbatim>\<open>data\<close> may itself be missing.
\<close>

record dnsReply =
  Status :: "int option"
  Answer :: "nat option"

text \<open>
  An \<^verbatim>\<open>async\<close> function whose body is \<^verbatim>\<open>try { \<dots> } catch (error) { \<dots> }\<close>, as the
  promise it returns: what the \<^verbatim>\<open>try\<close> block throws goes to the handler, and the
  promise is rejected only by what the handler itself throws.
\<close>

definition asyncTry :: "'a outcome \<Rightarrow> (string \<Rightarrow> 'a outcome) \<Rightarrow> 'a outcome" where
  "asyncTry body handler = (case body of Resolved v \<Rightarrow> Resolved v | Failed e \<Rightarrow> handler e)"

text \<open>
  The expression both versions return after the lookup:
  \<^verbatim>\<open>data?.Status === 3 || !data?.Answer || data?.Answer.length === 0\<close>.
\<close>

definition noRecords :: "dnsReply option \<Rightarrow> bool" where
  "noRecords data =
     (case data of
        None \<Rightarrow> True
      | Some r \<Rightarrow> Status r = Some 3 \<or> Answer r = None \<or> Answer r = Some 0)"

text \<open>
  \<^verbatim>\<open>quickAvailabilityCheck\<close> of \<^verbatim>\<open>services/domain-pricing.ts\<close>: the lookup is awaited
  inside the \<^verbatim>\<open>try\<close>, so its failure is thrown there; the \<^verbatim>\<open>catch\<close> returns
  \<^verbatim>\<open>true\<close>.
\<close>

definition quickAvailabilityCheck :: "dnsReply option outcome \<Rightarrow> bool outcome" where
  "quickAvailabilityCheck response =
     asyncTry
       (case response of
          Failed e \<Rightarrow> Failed e
        | Resolved data \<Rightarrow> Resolved (noRecords data))
       (\<lambda>e. Resolved True)"

text \<open>
  The later version of the service asks Porkbun first. \<^verbatim>\<open>checkPorkbunAvailability\<close>
  answers \<^verbatim>\<open>null\<close> unless the reply says \<^verbatim>\<open>SUCCESS\<close> and carries \<^verbatim>\<open>avail\<close>, and
  \<^verbatim>\<open>null\<close> from its \<^verbatim>\<open>catch\<close>.
\<close>

record porkbunReply =
  pb_status :: "string option"
  avail :: "string option"

definition checkPorkbunAvailability :: "porkbunReply option outcome \<Rightarrow> bool option outcome" where
  "checkPorkbunAvailability response =
     asyncTry
       (case response of
          Failed e \<Rightarrow> Failed e
        | Resolved data \<Rightarrow>
            Resolved
              (case data of
                 None \<Rightarrow> None
               | Some r \<Rightarrow>
                   if pb_status r = Some ''SUCCESS'' \<and> avail r \<noteq> None
                   then Some (avail r = Some ''yes'') else None))
       (\<lambda>e. Resolved None)"

definition quickAvailabilityCheck_live ::
  "porkbunReply option outcome \<Rightarrow> dnsReply option outcome \<Rightarrow> bool outcome" where
  "quickAvailabilityCheck_live porkbun response =
     asyncTry
       (case checkPorkbunAvailability porkbun of
          Failed e \<Rightarrow> Failed e
        | Resolved (Some b) \<Rightarrow> Resolved b
        | Resolved None \<Rightarrow>
            (case response of
               Failed e \<Rightarrow> Failed e
             | Resolved data \<Rightarrow> Resolved (noRecords data)))
       (\<lambda>e. Resolved True)"

subsection \<open>The five providers, from estimates\<close>

text \<open>\<^verbatim>\<open>domain.split('.').pop()?.toLowerCase()\<close>, on ASCII letters.\<close>

definition toLowerCase :: "string \<Rightarrow> string" where
  "toLowerCase s =
     map (\<lambda>c. case map_of (zip ''ABCDEFGHIJKLMNOPQRSTUVWXYZ'' ''abcdefghijklmnopqrstuvwxyz'') c of
                 None \<Rightarrow> c | Some l \<Rightarrow> l) s"

definition tldOf :: "string \<Rightarrow> string" where
  "tldOf d = toLowerCase (rev (takeWhile (\<lambda>c. c \<noteq> CHR ''.'') (rev d)))"

text \<open>
  A price table is an object literal, read as \<^verbatim>\<open>pricing[tld || ''] || {registration: null, renewal: null}\<close>.
  A key of the table gives its entry. The two lower-case names every object inherits,
  \<^verbatim>\<open>constructor\<close> and \<^verbatim>\<open>__proto__\<close>, give an object without prices. Any other key
  gives the fallback with both prices \<^verbatim>\<open>null\<close>.
\<close>

datatype estimate = Entry rat rat | Inherited | Fallback

definition estimateOf :: "(string \<times> rat \<times> rat) list \<Rightarrow> string \<Rightarrow> estimate" where
  "estimateOf table tld =
     (case map_of table tld of
        Some (reg, ren) \<Rightarrow> Entry reg ren
      | None \<Rightarrow> if tld = ''constructor'' \<or> tld = ''__proto__'' then Inherited else Fallback)"

definition cloudflareEstimates :: "(string \<times> rat \<times> rat) list" where
  "cloudflareEstimates =
     [(''com'', 977 / 100, 977 / 100), (''net'', 1185 / 100, 1185 / 100),
      (''org'', 1206 / 100, 1206 / 100), (''info'', 485 / 100, 1785 / 100),
      (''biz'', 485 / 100, 1785 / 100), (''us'', 857 / 100, 857 / 100),
      (''co'', 30, 30), (''io'', 65, 65), (''dev'', 15, 15), (''app'', 20, 20)]"

definition namecheapEstimates :: "(string \<times> rat \<times> rat) list" where
  "namecheapEstimates =
     [(''com'', 1099 / 100, 1399 / 100), (''net'', 1299 / 100, 1599 / 100),
      (''org'', 1199 / 100, 1499 / 100), (''info'', 299 / 100, 2199 / 100),
      (''biz'', 199 / 100, 1999 / 100), (''us'', 888 / 100, 888 / 100),
      (''co'', 888 / 100, 3299 / 100), (''io'', 3999 / 100, 6999 / 100),
      (''dev'', 1299 / 100, 1799 / 100), (''app'', 1499 / 100, 2099 / 100)]"

definition porkbunEstimates :: "(string \<times> rat \<times> rat) list" where
  "porkbunEstimates =
     [(''com'', 897 / 100, 973 / 100), (''net'', 1069 / 100, 1184 / 100),
      (''org'', 917 / 100, 1218 / 100), (''info'', 325 / 100, 1767 / 100),
      (''biz'', 414 / 100, 1844 / 100), (''us'', 765 / 100, 837 / 100),
      (''co'', 698 / 100, 3078 / 100), (''io'', 4720 / 100, 54),
      (''dev'', 1148 / 100, 1533 / 100), (''app'', 1533 / 100, 1844 / 100)]"

definition godaddyEstimates :: "(string \<times> rat \<times> rat) list" where
  "godaddyEstimates =
     [(''com'', 1199 / 100, 1799 / 100), (''net'', 1299 / 100, 1799 / 100),
      (''org'', 1299 / 100, 1799 / 100), (''info'', 299 / 100, 1999 / 100),
      (''biz'', 299 / 100, 1999 / 100), (''us'', 999 / 100, 999 / 100),
      (''co'', 2499 / 100, 3499 / 100), (''io'', 5999 / 100, 7999 / 100),
      (''dev'', 1799 / 100, 2499 / 100), (''app'', 1999 / 100, 2499 / 100)]"

definition namecomEstimates :: "(string \<times> rat \<times> rat) list" where
  "namecomEstimates =
     [(''com'', 1099 / 100, 1299 / 100), (''net'', 1299 / 100, 1499 / 100),
      (''org'', 1199 / 100, 1399 / 100), (''info'', 499 / 100, 1899 / 100),
      (''biz'', 499 / 100, 1899 / 100), (''us'', 899 / 100, 899 / 100),
      (''co'', 2999 / 100, 3199 / 100), (''io'', 4999 / 100, 6999 / 100),
      (''dev'', 1499 / 100, 1999 / 100), (''app'', 1799 / 100, 2299 / 100)]"

text \<open>
  The \<^verbatim>\<open>try\<close> block the five estimate-based checks share; only the provider's name,
  its table and its link differ. \<^verbatim>\<open>error\<close> is set exactly when the registration price
  is \<^verbatim>\<open>null\<close>. Nothing in the block can throw, so the \<^verbatim>\<open>catch\<close> block, which returns
  a quote under the same provider name, is never entered.
\<close>

definition estimatedQuote :: "string \<Rightarrow> string \<Rightarrow> estimate \<Rightarrow> DomainPricing" where
  "estimatedQuote name link e =
     \<lparr>provider = name, available = True,
      registrationPrice = (case e of Entry reg ren \<Rightarrow> Some (Fin reg) | _ \<Rightarrow> None),
      renewalPrice = (case e of Entry reg ren \<Rightarrow> Some (Fin ren) | _ \<Rightarrow> None),
      currency = ''USD'', url = link,
      error = (case e of Fallback \<Rightarrow> Some ''TLD not supported'' | _ \<Rightarrow> None)\<rparr>"

definition checkCloudflare :: "string \<Rightarrow> DomainPricing" where
  "checkCloudflare d =
     estimatedQuote ''Cloudflare'' ''https://www.cloudflare.com/products/registrar/''
       (estimateOf cloudflareEstimates (tldOf d))"

definition checkNamecheap :: "string \<Rightarrow> DomainPricing" where
  "checkNamecheap d =
     estimatedQuote ''Namecheap'' (''https://www.namecheap.com/domains/registration/results/?domain='' @ d)
       (estimateOf namecheapEstimates (tldOf d))"

definition checkPorkbun :: "string \<Rightarrow> DomainPricing" where
  "checkPorkbun d =
     estimatedQuote ''Porkbun'' (''https://porkbun.com/checkout/search?q='' @ d)
       (estimateOf porkbunEstimates (tldOf d))"

definition checkGoDaddy :: "string \<Rightarrow> DomainPricing" where
  "checkGoDaddy d =
     estimatedQuote ''GoDaddy'' (''https://www.godaddy.com/domainsearch/find?checkAvail=1&domainToCheck='' @ d)
       (estimateOf godaddyEstimates (tldOf d))"

definition checkNamecom :: "string \<Rightarrow> DomainPricing" where
  "checkNamecom d =
     estimatedQuote ''Name.com'' (''https://www.name.com/domain/search/'' @ d)
       (estimateOf namecomEstimates (tldOf d))"

subsection \<open>The five providers, from live data\<close>

text \<open>
  The later version asks the network. What a pricing helper resolves with is a pair of
  prices, each possibly \<^verbatim>\<open>null\<close>, or \<^verbatim>\<open>null\<close> altogether; the helpers are the outside
  world here, and a check handles their result and anything they throw.
\<close>

record PricePair =
  registration :: "jsnum option"
  renewal :: "jsnum option"

record liveReplies =
  porkbunAvailability :: "porkbunReply option outcome"
  dnsResolve :: "dnsReply option outcome"
  cloudflareLive :: "PricePair option outcome"
  namecheapScrape :: "PricePair option outcome"
  porkbunLive :: "PricePair option outcome"
  godaddyScrape :: "PricePair option outcome"
  namecomLive :: "PricePair option outcome"
  namecomScrape :: "PricePair option outcome"

text \<open>
  The quote of a \<^verbatim>\<open>catch\<close> block; \<open>e\<close> is the thrown value as the template string
  prints it.
\<close>

definition failedQuote :: "string \<Rightarrow> string \<Rightarrow> string \<Rightarrow> DomainPricing" where
  "failedQuote name link e =
     \<lparr>provider = name, available = False, registrationPrice = None, renewalPrice = None,
      currency = ''USD'', url = link, error = Some (''Failed to get live pricing: '' @ e)\<rparr>"

definition liveQuote :: "string \<Rightarrow> string \<Rightarrow> PricePair \<Rightarrow> string option \<Rightarrow> DomainPricing" where
  "liveQuote name link pp note =
     \<lparr>provider = name, available = True, registrationPrice = registration pp,
      renewalPrice = renewal pp, currency = ''USD'', url = link, error = note\<rparr>"

text \<open>
  Cloudflare and Porkbun throw on a missing pair and on a \<^verbatim>\<open>null\<close> registration price.
\<close>

definition pricedOrThrow :: "string \<Rightarrow> string \<Rightarrow> PricePair option outcome \<Rightarrow> DomainPricing" where
  "pricedOrThrow name link r =
     (case r of
        Failed e \<Rightarrow> failedQuote name link e
      | Resolved None \<Rightarrow> failedQuote name link ''Error: Live API returned no pricing data''
      | Resolved (Some pp) \<Rightarrow>
          if registration pp = None
          then failedQuote name link ''Error: Live API returned no pricing data''
          else liveQuote name link pp None)"

definition checkCloudflare_live :: "liveReplies \<Rightarrow> string \<Rightarrow> DomainPricing" where
  "checkCloudflare_live net d =
     pricedOrThrow ''Cloudflare'' ''https://www.cloudflare.com/products/registrar/'' (cloudflareLive net)"

definition checkPorkbun_live :: "liveReplies \<Rightarrow> string \<Rightarrow> DomainPricing" where
  "checkPorkbun_live net d =
     pricedOrThrow ''Porkbun'' (''https://porkbun.com/checkout/search?q='' @ d) (porkbunLive net)"

text \<open>
  Namecheap: \<^verbatim>\<open>getNamecheapLivePricing\<close> always resolves with \<^verbatim>\<open>null\<close>, so the
  scraper decides; its quote carries a note in \<^verbatim>\<open>error\<close>.
\<close>

definition checkNamecheap_live :: "liveReplies \<Rightarrow> string \<Rightarrow> DomainPricing" where
  "checkNamecheap_live net d =
     (let link = ''https://www.namecheap.com/domains/registration/results/?domain='' @ d in
      case namecheapScrape net of
        Failed e \<Rightarrow> failedQuote ''Namecheap'' link e
      | Resolved None \<Rightarrow> failedQuote ''Namecheap'' link ''Error: No live pricing available''
      | Resolved (Some pp) \<Rightarrow> liveQuote ''Namecheap'' link pp (Some ''Live pricing via web scraping''))"

definition checkGoDaddy_live :: "liveReplies \<Rightarrow> string \<Rightarrow> DomainPricing" where
  "checkGoDaddy_live net d =
     (let link = ''https://www.godaddy.com/domainsearch/find?checkAvail=1&domainToCheck='' @ d in
      case godaddyScrape net of
        Failed e \<Rightarrow> failedQuote ''GoDaddy'' link e
      | Resolved None \<Rightarrow> failedQuote ''GoDaddy'' link ''Error: No live pricing available''
      | Resolved (Some pp) \<Rightarrow> liveQuote ''GoDaddy'' link pp None)"

definition checkNamecom_live :: "liveReplies \<Rightarrow> string \<Rightarrow> DomainPricing" where
  "checkNamecom_live net d =
     (let link = ''https://www.name.com/domain/search/'' @ d in
      case namecomLive net of
        Failed e \<Rightarrow> failedQuote ''Name.com'' link e
      | Resolved (Some pp) \<Rightarrow> liveQuote ''Name.com'' link pp None
      | Resolved None \<Rightarrow>
          (case namecomScrape net of
             Failed e \<Rightarrow> failedQuote ''Name.com'' link e
           | Resolved None \<Rightarrow> failedQuote ''Name.com'' link ''Error: No live pricing available''
           | Resolved (Some pp) \<Rightarrow> liveQuote ''Name.com'' link pp (Some ''Live pricing via web scraping'')))"

subsection \<open>Availability and pricing\<close>

definition providers :: "string list" where
  "providers = [''Cloudflare'', ''Namecheap'', ''Porkbun'', ''GoDaddy'', ''Name.com'']"

text \<open>
  The callback of \<^verbatim>\<open>pricingResults.map\<close>: the value of a fulfilled promise, and for a
  rejected one a quote under \<^verbatim>\<open>providers[index]\<close> with
  \<^verbatim>\<open>result.reason?.message || 'Failed to check pricing'\<close>. The index runs over the
  five promises. The \<^verbatim>\<open>filter\<close> after it drops \<^verbatim>\<open>null\<close>.
\<close>

definition rejectedQuote :: "nat \<Rightarrow> string option \<Rightarrow> DomainPricing" where
  "rejectedQuote index reason =
     \<lparr>provider = providers ! index, available = False, registrationPrice = None,
      renewalPrice = None, currency = ''USD'', url = [],
      error = Some (case reason of
                      None \<Rightarrow> ''Failed to check pricing''
                    | Some m \<Rightarrow> if m = [] then ''Failed to check pricing'' else m)\<rparr>"

definition settledQuote :: "nat \<Rightarrow> DomainPricing option settled \<Rightarrow> DomainPricing option" where
  "settledQuote index r =
     (case r of Fulfilled v \<Rightarrow> v | Rejected reason \<Rightarrow> Some (rejectedQuote index reason))"

text \<open>The five promises, in the order in which the source lists them.\<close>

record pricingPromises =
  cloudflarePromise :: "DomainPricing option settled"
  namecheapPromise :: "DomainPricing option settled"
  porkbunPromise :: "DomainPricing option settled"
  godaddyPromise :: "DomainPricing option settled"
  namecomPromise :: "DomainPricing option settled"

definition pricingResults :: "pricingPromises \<Rightarrow> DomainPricing option settled list" where
  "pricingResults ps =
     [cloudflarePromise ps, namecheapPromise ps, porkbunPromise ps, godaddyPromise ps, namecomPromise ps]"

definition collectPricing :: "pricingPromises \<Rightarrow> DomainPricing list" where
  "collectPricing ps =
     List.map_filter id (map (\<lambda>(index, r). settledQuote index r) (enumerate 0 (pricingResults ps)))"

text \<open>
  \<^verbatim>\<open>checkAvailabilityAndPricing\<close>, the same text in both versions of the service. Its
  inputs are the clock, what awaiting \<^verbatim>\<open>quickAvailabilityCheck\<close> gives (an exception
  there would leave the function), and the five settled provider promises, which exist
  only on the available branch.
\<close>

definition checkAvailabilityAndPricing ::
  "int \<Rightarrow> string \<Rightarrow> bool outcome \<Rightarrow> pricingPromises \<Rightarrow> DomainAvailabilityResult outcome" where
  "checkAvailabilityAndPricing clock d availability promises =
     (case availability of
        Failed e \<Rightarrow> Failed e
      | Resolved isLikelyAvailable \<Rightarrow>
          Resolved \<lparr>domain_ar = d, isAvailable = isLikelyAvailable,
                    pricing_ar = (if isLikelyAvailable then collectPricing promises else []),
                    checkedAt = clock\<rparr>)"

text \<open>
  The two services: the shared body on the availability check and the five checks of
  each version. A check returns its quote from the \<^verbatim>\<open>try\<close> block or from the
  \<^verbatim>\<open>catch\<close> block, so the promise it hands to \<^verbatim>\<open>Promise.allSettled\<close> is fulfilled
  with that quote.
\<close>

definition estimateService :: "int \<Rightarrow> dnsReply option outcome \<Rightarrow> string \<Rightarrow> DomainAvailabilityResult outcome" where
  "estimateService clock response d =
     checkAvailabilityAndPricing clock d (quickAvailabilityCheck response)
       \<lparr>cloudflarePromise = Fulfilled (Some (checkCloudflare d)),
        namecheapPromise = Fulfilled (Some (checkNamecheap d)),
        porkbunPromise = Fulfilled (Some (checkPorkbun d)),
        godaddyPromise = Fulfilled (Some (checkGoDaddy d)),
        namecomPromise = Fulfilled (Some (checkNamecom d))\<rparr>"

definition liveService :: "int \<Rightarrow> liveReplies \<Rightarrow> string \<Rightarrow> DomainAvailabilityResult outcome" where
  "liveService clock net d =
     checkAvailabilityAndPricing clock d
       (quickAvailabilityCheck_live (porkbunAvailability net) (dnsResolve net))
       \<lparr>cloudflarePromise = Fulfilled (Some (checkCloudflare_live net d)),
        namecheapPromise = Fulfilled (Some (checkNamecheap_live net d)),
        porkbunPromise = Fulfilled (Some (checkPorkbun_live net d)),
        godaddyPromise = Fulfilled (Some (checkGoDaddy_live net d)),
        namecomPromise = Fulfilled (Some (checkNamecom_live net d))\<rparr>"

section \<open>The batch scheduler\<close>

text \<open>
  \<^verbatim>\<open>xs.slice(start, end)\<close> for whole-number arguments: a negative index counts from the
  end, and both ends are clamped to the array.
\<close>

definition slice :: "'a list \<Rightarrow> int \<Rightarrow> int \<Rightarrow> 'a list" where
  "slice xs s e =
     (let n = int (length xs);
          from = (if s < 0 then max (n + s) 0 else min s n);
          upto = (if e < 0 then max (n + e) 0 else min e n)
      in take (nat (upto - from)) (drop (nat from) xs))"

text \<open>
  What \<^verbatim>\<open>investigateMultiple\<close> does that an observer of the scheduler sees: a batch
  is announced as \<^verbatim>\<open>BATCH batchNum/totalBatches\<close> and its domains are handed to
  \<^verbatim>\<open>investigateSingle\<close> together (\<^verbatim>\<open>Promise.allSettled\<close> waits for all of them); a
  pause is the \<^verbatim>\<open>setTimeout\<close> of 1500 ms.
\<close>

datatype event =
    BatchStart (batchNum: int) (totalBatches: int) (batch: "string list")
  | Pause nat

text \<open>
  The loop \<^verbatim>\<open>for (let i = 0; i < domains.length; i += parallelLimit)\<close>, with the
  events so far as an accumulator. The limit and the cursor are whole numbers. Nothing
  in the source guards the limit: with a limit of zero or less the cursor never reaches
  the end of a non-empty list, and the loop does not return (the value \<open>None\<close>).
\<close>

partial_function (option) batchLoop ::
  "string list \<Rightarrow> int \<Rightarrow> int \<Rightarrow> event list \<Rightarrow> event list option" where
  "batchLoop domains parallelLimit i tr =
     (if i < int (length domains)
      then batchLoop domains parallelLimit (i + parallelLimit)
             (tr @ [BatchStart (i div parallelLimit + 1)
                      \<lceil>real (length domains) / real_of_int parallelLimit\<rceil>
                      (slice domains i (i + parallelLimit))]
                 @ (if i + parallelLimit < int (length domains) then [Pause 1500] else []))
      else Some tr)"

declare batchLoop.simps [code]

definition investigateMultiple :: "string list \<Rightarrow> int \<Rightarrow> event list option" where
  "investigateMultiple domains parallelLimit = batchLoop domains parallelLimit 0 []"

text \<open>
  The schedule in the specification's words: the list cut into consecutive pieces of
  \<open>k\<close> elements, the last one possibly shorter; the batches numbered from one; a
  pause between two batches and none after the last.
\<close>

function chunks :: "nat \<Rightarrow> 'a list \<Rightarrow> 'a list list" where
  "chunks k xs = (if k = 0 \<or> xs = [] then [] else take k xs # chunks k (drop k xs))"
  by pat_completeness auto
termination
  by (relation "measure (\<lambda>(k, xs). length xs)") auto

declare chunks.simps [simp del]

fun number_from :: "int \<Rightarrow> int \<Rightarrow> string list list \<Rightarrow> event list" where
  "number_from tot j [] = []"
| "number_from tot j (b # bs) = BatchStart j tot b # number_from tot (j + 1) bs"

fun paced :: "event list \<Rightarrow> event list" where
  "paced [] = []"
| "paced [e] = [e]"
| "paced (e # e' # es) = e # Pause 1500 # paced (e' # es)"

section \<open>Sample inputs\<close>

text \<open>Concrete values on which the statements below are evaluated.\<close>

definition quoteA :: DomainPricing where
  "quoteA = \<lparr>provider = ''Cloudflare'', available = True, registrationPrice = Some (Fin 10),
             renewalPrice = Some (Fin 12), currency = ''USD'',
             url = ''https://www.cloudflare.com/products/registrar/'', error = None\<rparr>"

definition quoteB :: DomainPricing where
  "quoteB = \<lparr>provider = ''Porkbun'', available = True, registrationPrice = Some (Fin 8),
             renewalPrice = None, currency = ''USD'',
             url = ''https://porkbun.com/checkout/search?q=example.com'', error = None\<rparr>"

definition quoteC :: DomainPricing where
  "quoteC = \<lparr>provider = ''GoDaddy'', available = True, registrationPrice = Some (Fin 8),
             renewalPrice = Some (Fin 12), currency = ''USD'',
             url = ''https://www.godaddy.com/domainsearch/find?checkAvail=1&domainToCheck=example.com'',
             error = None\<rparr>"

definition quoteFailed :: DomainPricing where
  "quoteFailed = \<lparr>provider = ''Namecheap'', available = False, registrationPrice = None,
             renewalPrice = None, currency = ''USD'',
             url = ''https://www.namecheap.com/domains/registration/results/?domain=example.com'',
             error = Some ''Failed to get live pricing: Error: No live pricing available''\<rparr>"




text \<open>
  Quotes with a price of zero on one axis, and one with a negative registration price:
  nothing in \<^verbatim>\<open>DomainPricing\<close> keeps a price positive.
\<close>

definition quoteFreeRenewal :: DomainPricing where
  "quoteFreeRenewal = \<lparr>provider = ''Name.com'', available = True, registrationPrice = Some (Fin 9),
             renewalPrice = Some (Fin 0), currency = ''USD'',
             url = ''https://www.name.com/domain/search/example.com'', error = None\<rparr>"

definition quoteFreeRegistration :: DomainPricing where
  "quoteFreeRegistration = \<lparr>provider = ''Porkbun'', available = True, registrationPrice = Some (Fin 0),
             renewalPrice = Some (Fin 11), currency = ''USD'',
             url = ''https://porkbun.com/checkout/search?q=example.com'', error = None\<rparr>"


text \<open>
  A sequence of \<^verbatim>\<open>addDomain\<close> calls on one service, each with the report it is given
  and the clock of its moment.
\<close>

definition addAll :: "(runtime \<times> DomainInfo) list \<Rightarrow> string list \<Rightarrow> string list" where
  "addAll calls csvData = foldl (\<lambda>csv (rt, info). addDomain rt info csv) csvData calls"

text \<open>A report for which every source that ran has failed.\<close>

definition failedInfo :: DomainInfo where
  "failedInfo = \<lparr>domain = ''example.com'', whois = Null, dns = Null, ssl = Null,
                  security = Undefined, network = Null, subdomains = Null, pricing = Null\<rparr>"

text \<open>
  A clock that stands one day after the one date the parser knows; a report with a
  registration of that date and a certificate marked invalid; a report whose
  certificate has ten days left.
\<close>

definition sampleParse :: "string \<Rightarrow> int option" where
  "sampleParse s = (if s = ''2024-01-01T00:00:00Z'' then Some 1704067200000 else None)"

definition sampleRuntime :: runtime where
  "sampleRuntime = \<lparr>now = 1704153600000, parseDate = sampleParse\<rparr>"

definition recentInvalidInfo :: DomainInfo where
  "recentInvalidInfo =
     \<lparr>domain = ''example.com'',
      whois = Value (Whois \<lparr>registrar = None, registrationDate = Some ''2024-01-01T00:00:00Z'',
                            expirationDate = None, nameServers = None, registrantCountry = None,
                            status = None\<rparr>),
      dns = Null,
      ssl = Value (Ssl \<lparr>issuer = None, subject = None, validFrom = None, validTo = None,
                        fingerprint = None, serialNumber = None, signatureAlgorithm = None,
                        keySize = None, isValid = Some False, daysUntilExpiry = Some 200\<rparr>),
      security = Undefined, network = Null, subdomains = Undefined, pricing = Undefined\<rparr>"

definition expiringInfo :: DomainInfo where
  "expiringInfo =
     \<lparr>domain = ''example.com'', whois = Null, dns = Null,
      ssl = Value (Ssl \<lparr>issuer = None, subject = None, validFrom = None, validTo = None,
                        fingerprint = None, serialNumber = None, signatureAlgorithm = None,
                        keySize = None, isValid = Some True, daysUntilExpiry = Some 10\<rparr>),
      security = Undefined, network = Null, subdomains = Undefined, pricing = Undefined\<rparr>"

text \<open>Six services that all answer.\<close>

definition sampleWhois :: WhoisData where
  "sampleWhois = \<lparr>registrar = Some ''RESERVED-Internet Assigned Numbers Authority'',
                   registrationDate = Some ''1995-08-14T04:00:00Z'', expirationDate = None,
                   nameServers = Some [''a.iana-servers.net'', ''b.iana-servers.net''],
                   registrantCountry = None, status = None\<rparr>"

definition sampleDns :: DNSData where
  "sampleDns = \<lparr>dns_a = Some [''93.184.216.34''], dns_aaaa = None, dns_mx = None, dns_ns = None,
                 dns_txt = None, dns_cname = None, dns_soa = None\<rparr>"

definition sampleSsl :: SSLData where
  "sampleSsl = \<lparr>issuer = Some ''DigiCert Inc'', subject = Some ''example.com'', validFrom = None,
                 validTo = None, fingerprint = None, serialNumber = None,
                 signatureAlgorithm = None, keySize = None, isValid = Some True,
                 daysUntilExpiry = Some 200\<rparr>"

definition sampleNetwork :: NetworkData where
  "sampleNetwork = \<lparr>openPorts = Some [80, 443], services = None, location = None\<rparr>"

definition sampleSubdomains :: SubdomainData where
  "sampleSubdomains =
     \<lparr>subdomains_sd = [''www.example.com''],
      sources = \<lparr>dnsEnumeration = [''www.example.com''], certificateTransparency = [], commonNames = []\<rparr>,
      totalFound = 1\<rparr>"

definition samplePricing :: DomainAvailabilityResult where
  "samplePricing = \<lparr>domain_ar = ''example.com'', isAvailable = False, pricing_ar = [], checkedAt = 0\<rparr>"

definition sampleSources :: sourceOutcomes where
  "sampleSources =
     \<lparr>whoisLookup = Resolved sampleWhois, dnsLookup = Resolved sampleDns,
      getCertificate = Resolved sampleSsl, getNetworkInfo = Resolved sampleNetwork,
      discoverSubdomains = Resolved sampleSubdomains, pricingCheck = Resolved samplePricing\<rparr>"

text \<open>The options of a run started with pricing switched on and nothing else.\<close>

definition pricingOptions :: InspectionOptions where
  "pricingOptions = \<lparr>verbose = False, quick = False, banner = False, exportCsv = None,
                      exportJson = None, subdomains_opt = False, checkPricing = True\<rparr>"

text \<open>
  Answers of the network to the live service, and five settled provider promises of
  which the second and the fourth are rejected.
\<close>

definition sampleReplies :: liveReplies where
  "sampleReplies =
     \<lparr>porkbunAvailability = Resolved (Some \<lparr>pb_status = Some ''SUCCESS'', avail = Some ''yes''\<rparr>),
      dnsResolve = Failed ''timeout'',
      cloudflareLive = Resolved (Some \<lparr>registration = Some (Fin (977 / 100)), renewal = Some (Fin (977 / 100))\<rparr>),
      namecheapScrape = Resolved (Some \<lparr>registration = Some (Fin (1099 / 100)),
                                        renewal = Some (Fin (1399 / 100))\<rparr>),
      porkbunLive = Resolved None,
      godaddyScrape = Failed ''Error: Request failed with status code 403'',
      namecomLive = Resolved None,
      namecomScrape = Resolved (Some \<lparr>registration = Some (Fin (1299 / 100)), renewal = None\<rparr>)\<rparr>"

definition samplePromises :: pricingPromises where
  "samplePromises =
     \<lparr>cloudflarePromise = Fulfilled (Some (checkCloudflare ''example.com'')),
      namecheapPromise = Rejected (Some ''socket hang up''),
      porkbunPromise = Fulfilled (Some (checkPorkbun ''example.com'')),
      godaddyPromise = Rejected None,
      namecomPromise = Fulfilled (Some (checkNamecom ''example.com''))\<rparr>"

section \<open>Facts about strings\<close>

lemma startsWith_iff: "startsWith s p \<longleftrightarrow> (\<exists>v. s = p @ v)"
  by (induction s p rule: startsWith.induct) auto

lemma str_includes_iff: "str_includes s p \<longleftrightarrow> (\<exists>u v. s = u @ p @ v)"
proof (induction s)
  case Nil
  then show ?case by simp
next
  case (Cons c cs)
  have "(\<exists>u v. c # cs = u @ p @ v) \<longleftrightarrow> (\<exists>v. c # cs = p @ v) \<or> (\<exists>u v. cs = u @ p @ v)"
  proof
    assume "\<exists>u v. c # cs = u @ p @ v"
    then obtain u v where uv: "c # cs = u @ p @ v" by blast
    show "(\<exists>v. c # cs = p @ v) \<or> (\<exists>u v. cs = u @ p @ v)"
    proof (cases u)
      case Nil
      with uv show ?thesis by auto
    next
      case (Cons x u')
      with uv have "cs = u' @ p @ v" by simp
      then show ?thesis by blast
    qed
  next
    assume "(\<exists>v. c # cs = p @ v) \<or> (\<exists>u v. cs = u @ p @ v)"
    then show "\<exists>u v. c # cs = u @ p @ v"
    proof
      assume "\<exists>v. c # cs = p @ v"
      then obtain v where "c # cs = [] @ p @ v" by auto
      then show ?thesis by blast
    next
      assume "\<exists>u v. cs = u @ p @ v"
      then obtain u v where "c # cs = (c # u) @ p @ v" by auto
      then show ?thesis by blast
    qed
  qed
  with Cons show ?case by (simp add: startsWith_iff)
qed

lemma str_includes_char: "str_includes s [c] \<longleftrightarrow> c \<in> set s"
  by (induction s) auto

lemma doubleQuotes_concat:
  "doubleQuotes v = concat (map (\<lambda>c. if c = dquote then [dquote, dquote] else [c]) v)"
  by (induction v) auto

lemma rfc4180_quoted_doubleQuotes:
  "rfc4180_quoted (doubleQuotes v @ [dquote]) = Some v"
proof (induction v)
  case Nil
  then show ?case by simp
next
  case (Cons c cs)
  show ?case
  proof (cases "c = dquote")
    case True
    with Cons show ?thesis by simp
  next
    case False
    obtain d ds where "doubleQuotes cs @ [dquote] = d # ds"
      by (cases "doubleQuotes cs @ [dquote]") auto
    with Cons False show ?thesis by simp
  qed
qed

section \<open>CSV escaping: the claim\<close>

text \<open>
  C8. \<^verbatim>\<open>escapeCSV\<close> wraps a value in double quotes, every inner double quote doubled,
  exactly when the value holds a comma, a double quote or a line feed, and returns it
  unchanged otherwise; the value \<^verbatim>\<open>Acme, Inc."\<close> becomes \<^verbatim>\<open>"Acme, Inc."""\<close>; and a
  reader following RFC 4180 gets the original value back from the escaped field, for
  every value.
\<close>

theorem escapeCSV_quotes_and_round_trip:
  "escapeCSV v =
     (if comma \<in> set v \<or> dquote \<in> set v \<or> newline \<in> set v
        then [dquote] @ concat (map (\<lambda>c. if c = dquote then [dquote, dquote] else [c]) v) @ [dquote]
      else v)
   \<and> escapeCSV (''Acme, Inc.'' @ [dquote])
       = [dquote] @ ''Acme, Inc.'' @ [dquote, dquote, dquote]
   \<and> rfc4180_field (escapeCSV (''Acme, Inc.'' @ [dquote])) = Some (''Acme, Inc.'' @ [dquote])
   \<and> rfc4180_field (escapeCSV v) = Some v"
proof -
  have shape: "escapeCSV v =
     (if comma \<in> set v \<or> dquote \<in> set v \<or> newline \<in> set v
        then [dquote] @ concat (map (\<lambda>c. if c = dquote then [dquote, dquote] else [c]) v) @ [dquote]
      else v)"
    by (cases v) (auto simp: escapeCSV_def str_includes_char doubleQuotes_concat)
  have round: "rfc4180_field (escapeCSV w) = Some w" for w
  proof (cases "comma \<in> set w \<or> dquote \<in> set w \<or> newline \<in> set w")
    case True
    then have "w \<noteq> []" by auto
    with True have "escapeCSV w = dquote # (doubleQuotes w @ [dquote])"
      by (auto simp: escapeCSV_def str_includes_char)
    then show ?thesis
      by (simp add: rfc4180_field_def rfc4180_quoted_doubleQuotes)
  next
    case False
    then have "escapeCSV w = w"
      by (auto simp: escapeCSV_def str_includes_char)
    with False show ?thesis
      by (cases w) (auto simp: rfc4180_field_def)
  qed
  have example: "escapeCSV (''Acme, Inc.'' @ [dquote])
       = [dquote] @ ''Acme, Inc.'' @ [dquote, dquote, dquote]"
    by (simp add: escapeCSV_def dquote_def comma_def newline_def)
  show ?thesis
    using shape round [of v] round [of "''Acme, Inc.'' @ [dquote]"] example by blast
qed

section \<open>Facts about the schedule\<close>

lemma concat_chunks: "0 < k \<Longrightarrow> concat (chunks k xs) = xs"
  by (induction k xs rule: chunks.induct) (subst chunks.simps, auto)

lemma chunks_Nil_iff: "chunks k xs = [] \<longleftrightarrow> k = 0 \<or> xs = []"
  by (subst chunks.simps) auto

lemma chunks_empty: "chunks k [] = []"
  by (subst chunks.simps) simp

lemma length_chunks: "0 < k \<Longrightarrow> length (chunks k xs) = (length xs + k - 1) div k"
proof (induction k xs rule: chunks.induct)
  case (1 k xs)
  show ?case
  proof (cases "xs = []")
    case True
    with 1 show ?thesis by (subst chunks.simps) simp
  next
    case False
    then obtain m where m: "length xs = Suc m" by (cases xs) auto
    from False 1 have "length (chunks k xs) = Suc ((length xs - k + k - 1) div k)"
      by (subst chunks.simps) simp
    also have "\<dots> = (length xs + k - 1) div k"
    proof (cases "length xs \<le> k")
      case True
      with m 1(2) have "(length xs + k - 1) div k = 1"
        by (intro div_nat_eqI) auto
      with True m show ?thesis by simp
    next
      case gt: False
      with m have e1: "length xs - k + k - 1 = m" by simp
      from m have e2: "length xs + k - 1 = m + k" by simp
      show ?thesis unfolding e1 e2 using 1(2) by simp
    qed
    finally show ?thesis .
  qed
qed

lemma chunks_sizes:
  "0 < k \<Longrightarrow> b \<in> set (chunks k xs) \<Longrightarrow> 0 < length b \<and> length b \<le> k"
proof (induction k xs rule: chunks.induct)
  case (1 k xs)
  from 1(3) have ne: "xs \<noteq> []" by (subst (asm) chunks.simps) (auto split: if_splits)
  with 1(2,3) have "b = take k xs \<or> b \<in> set (chunks k (drop k xs))"
    by (subst (asm) chunks.simps) auto
  with 1 ne show ?case by auto
qed

lemma chunks_full:
  "0 < k \<Longrightarrow> b \<in> set (butlast (chunks k xs)) \<Longrightarrow> length b = k"
proof (induction k xs rule: chunks.induct)
  case (1 k xs)
  from 1(3) have ne: "xs \<noteq> []" by (subst (asm) chunks.simps) (auto split: if_splits)
  with 1(2) have unf: "chunks k xs = take k xs # chunks k (drop k xs)"
    by (subst chunks.simps) simp
  show ?case
  proof (cases "chunks k (drop k xs) = []")
    case True
    with unf 1(3) show ?thesis by simp
  next
    case False
    then have "k < length xs" using 1(2) by (auto simp: chunks_Nil_iff)
    moreover from False unf 1(3) have "b = take k xs \<or> b \<in> set (butlast (chunks k (drop k xs)))"
      by auto
    ultimately show ?thesis using 1 ne by auto
  qed
qed

lemma slice_window:
  assumes "0 \<le> i" "i < int (length xs)" "0 < k"
  shows "slice xs i (i + k) = take (nat k) (drop (nat i) xs)"
proof -
  have "take (nat (min (i + k) (int (length xs)) - i)) (drop (nat i) xs) = take (nat k) (drop (nat i) xs)"
  proof (cases "i + k \<le> int (length xs)")
    case True
    then show ?thesis by (simp add: min_def)
  next
    case False
    then have "length (drop (nat i) xs) \<le> nat (int (length xs) - i)" "length (drop (nat i) xs) \<le> nat k"
      using assms by auto
    with False show ?thesis by (simp add: min_def)
  qed
  with assms show ?thesis by (simp add: slice_def Let_def min_def)
qed

lemma batchLoop_schedule:
  assumes k: "0 < k"
  shows "0 \<le> i \<Longrightarrow>
     batchLoop ds k i tr =
       Some (tr @ paced (number_from \<lceil>real (length ds) / real_of_int k\<rceil> (i div k + 1)
                          (chunks (nat k) (drop (nat i) ds))))"
proof (induction "length ds - nat i" arbitrary: i tr rule: less_induct)
  case less
  let ?tot = "\<lceil>real (length ds) / real_of_int k\<rceil>"
  show ?case
  proof (cases "i < int (length ds)")
    case False
    with less(2) have "drop (nat i) ds = []" by simp
    with False show ?thesis
      by (subst batchLoop.simps) (simp add: chunks_empty)
  next
    case True
    let ?tr' = "tr @ [BatchStart (i div k + 1) ?tot (slice ds i (i + k))]
                   @ (if i + k < int (length ds) then [Pause 1500] else [])"
    from True less(2) k have smaller: "length ds - nat (i + k) < length ds - nat i" by linarith
    from less(2) k have nonneg: "0 \<le> i + k" by simp
    have step: "batchLoop ds k i tr = batchLoop ds k (i + k) ?tr'"
      using True by (subst batchLoop.simps) simp
    have ih: "batchLoop ds k (i + k) ?tr' =
        Some (?tr' @ paced (number_from ?tot ((i + k) div k + 1) (chunks (nat k) (drop (nat (i + k)) ds))))"
      by (rule less(1) [OF smaller nonneg])
    from True less(2) have ne: "drop (nat i) ds \<noteq> []" by simp
    have dd: "drop (nat k) (drop (nat i) ds) = drop (nat (i + k)) ds"
      using less(2) k by (simp add: nat_add_distrib add.commute)
    from ne k dd have unf: "chunks (nat k) (drop (nat i) ds)
        = take (nat k) (drop (nat i) ds) # chunks (nat k) (drop (nat (i + k)) ds)"
      by (subst chunks.simps) simp
    have sl: "slice ds i (i + k) = take (nat k) (drop (nat i) ds)"
      using less(2) True k by (rule slice_window)
    have num: "(i + k) div k + 1 = (i div k + 1) + 1" using k by simp
    have more: "chunks (nat k) (drop (nat (i + k)) ds) = [] \<longleftrightarrow> \<not> i + k < int (length ds)"
      using k nonneg by (auto simp: chunks_Nil_iff)
    show ?thesis
    proof (cases "i + k < int (length ds)")
      case False
      with more have "chunks (nat k) (drop (nat (i + k)) ds) = []" by simp
      with step ih unf sl False show ?thesis by simp
    next
      case lt: True
      with more obtain c cs where "chunks (nat k) (drop (nat (i + k)) ds) = c # cs"
        by (cases "chunks (nat k) (drop (nat (i + k)) ds)") auto
      with step ih unf sl lt num show ?thesis by simp
    qed
  qed
qed

lemma ceil_div_int:
  fixes n k :: int
  assumes "0 < k"
  shows "(n + k - 1) div k = - ((- n) div k)"
proof (rule int_div_pos_eq)
  show "n + k - 1 = k * (- ((- n) div k)) + (k - 1 - (- n) mod k)"
  proof -
    have "- n = k * ((- n) div k) + (- n) mod k" by simp
    then show ?thesis by (simp add: algebra_simps)
  qed
  show "0 \<le> k - 1 - (- n) mod k"
    using pos_mod_bound [OF assms, of "- n"] by linarith
  show "k - 1 - (- n) mod k < k"
    using pos_mod_sign [OF assms, of "- n"] by linarith
qed

lemma ceil_len:
  assumes "0 < k"
  shows "int ((n + nat k - 1) div nat k) = \<lceil>real n / real_of_int k\<rceil>"
proof -
  have "int (n + nat k - 1) = int n + k - 1" using assms by (cases n) auto
  then have "int ((n + nat k - 1) div nat k) = (int n + k - 1) div k"
    using assms by (simp add: zdiv_int)
  also have "\<dots> = - ((- int n) div k)" using assms by (rule ceil_div_int)
  also have "\<dots> = \<lceil>real_of_int (int n) / real_of_int k\<rceil>"
    by (simp only: ceiling_divide_eq_div)
  finally show ?thesis by simp
qed

section \<open>The batch scheduler: the claim\<close>

text \<open>
  C7. For a limit \<open>k > 0\<close>, \<^verbatim>\<open>investigateMultiple\<close> returns, and what it did is
  the list of domains cut into consecutive batches in input order: their concatenation
  is the input, there are \<open>\<lceil>n / k\<rceil>\<close> of them, every batch but the last has \<open>k\<close>
  domains and the last has between one and \<open>k\<close>; a pause stands between two
  consecutive batches and nowhere else, so none follows the last batch.
\<close>

theorem investigateMultiple_batches:
  assumes "0 < k"
  shows "investigateMultiple ds k
       = Some (paced (number_from \<lceil>real (length ds) / real_of_int k\<rceil> 1 (chunks (nat k) ds)))
     \<and> concat (chunks (nat k) ds) = ds
     \<and> int (length (chunks (nat k) ds)) = \<lceil>real (length ds) / real_of_int k\<rceil>
     \<and> (\<forall>b \<in> set (butlast (chunks (nat k) ds)). int (length b) = k)
     \<and> (\<forall>b \<in> set (chunks (nat k) ds). 0 < length b \<and> int (length b) \<le> k)"
proof -
  from assms have k': "0 < nat k" by simp
  have run: "investigateMultiple ds k
       = Some (paced (number_from \<lceil>real (length ds) / real_of_int k\<rceil> 1 (chunks (nat k) ds)))"
    using batchLoop_schedule [OF assms, of 0 ds "[]"] by (simp add: investigateMultiple_def)
  have cat: "concat (chunks (nat k) ds) = ds"
    using k' by (rule concat_chunks)
  have cnt: "int (length (chunks (nat k) ds)) = \<lceil>real (length ds) / real_of_int k\<rceil>"
    using ceil_len [OF assms, of "length ds"] by (simp add: length_chunks [OF k'])
  have full: "\<forall>b \<in> set (butlast (chunks (nat k) ds)). int (length b) = k"
    using chunks_full [OF k'] assms by fastforce
  have sizes: "\<forall>b \<in> set (chunks (nat k) ds). 0 < length b \<and> int (length b) \<le> k"
    using chunks_sizes [OF k'] assms by fastforce
  from run cat cnt full sizes show ?thesis by blast
qed

text \<open>Seven domains with a limit of three: batches of three, three and one, two pauses.\<close>

theorem investigateMultiple_batches_witness:
  "(0::int) < 3
   \<and> investigateMultiple [''a.com'', ''b.com'', ''c.com'', ''d.com'', ''e.com'', ''f.com'', ''g.com''] 3
       = Some [BatchStart 1 3 [''a.com'', ''b.com'', ''c.com''], Pause 1500,
               BatchStart 2 3 [''d.com'', ''e.com'', ''f.com''], Pause 1500,
               BatchStart 3 3 [''g.com'']]
   \<and> map length (chunks 3 [''a.com'', ''b.com'', ''c.com'', ''d.com'', ''e.com'', ''f.com'', ''g.com''])
       = [3, 3, 1]"
proof -
  have pos: "(0::int) < 3" by simp
  have cut: "chunks 3 [''a.com'', ''b.com'', ''c.com'', ''d.com'', ''e.com'', ''f.com'', ''g.com'']
      = [[''a.com'', ''b.com'', ''c.com''], [''d.com'', ''e.com'', ''f.com''], [''g.com'']]"
    by (simp add: chunks.simps)
  have tot: "\<lceil>7 / (3::real)\<rceil> = 3" by (simp add: ceiling_eq_iff)
  show ?thesis
    using investigateMultiple_batches [OF pos,
        of "[''a.com'', ''b.com'', ''c.com'', ''d.com'', ''e.com'', ''f.com'', ''g.com'']"]
    by (simp add: cut tot)
qed

section \<open>Facts about numbers and the cheapest quote\<close>

lemma orInfinity_not_NaN: "orInfinity p \<noteq> NaN"
  by (auto simp: orInfinity_def truthy_def split: option.splits)

lemma js_lt_trans: "js_lt a b \<Longrightarrow> js_lt b c \<Longrightarrow> js_lt a c"
  by (cases a; cases b; cases c) auto

lemma js_lt_irrefl: "\<not> js_lt a a"
  by (cases a) auto

lemma js_lt_total: "a \<noteq> NaN \<Longrightarrow> b \<noteq> NaN \<Longrightarrow> js_lt a b \<or> a = b \<or> js_lt b a"
  by (cases a; cases b) auto

lemma js_lt_not: "a \<noteq> NaN \<Longrightarrow> b \<noteq> NaN \<Longrightarrow> \<not> js_lt a b \<Longrightarrow> js_lt c b \<Longrightarrow> js_lt c a"
  using js_lt_total js_lt_trans by blast

text \<open>The fold keeps the first element of least key.\<close>

lemma cheapest_snoc: "cheapest price v (vs @ [x]) = cheaper price (cheapest price v vs) x"
  by (simp add: cheapest_def)

lemma cheapest_first_min:
  "\<exists>i < length (v # vs).
      cheapest price v vs = (v # vs) ! i
    \<and> (\<forall>j < length (v # vs). \<not> js_lt (orInfinity (price ((v # vs) ! j))) (orInfinity (price ((v # vs) ! i))))
    \<and> (\<forall>j < i. js_lt (orInfinity (price ((v # vs) ! i))) (orInfinity (price ((v # vs) ! j))))"
proof (induction vs rule: rev_induct)
  case Nil
  show ?case by (simp add: cheapest_def js_lt_irrefl)
next
  case (snoc x xs)
  let ?k = "\<lambda>q. orInfinity (price q)"
  from snoc obtain i where i: "i < length (v # xs)" "cheapest price v xs = (v # xs) ! i"
    and least: "\<forall>j < length (v # xs). \<not> js_lt (?k ((v # xs) ! j)) (?k ((v # xs) ! i))"
    and first: "\<forall>j < i. js_lt (?k ((v # xs) ! i)) (?k ((v # xs) ! j))"
    by blast
  have old: "(v # xs @ [x]) ! j = (v # xs) ! j" if "j < length (v # xs)" for j
    using that by (metis append_Cons nth_append)
  have new: "(v # xs @ [x]) ! length (v # xs) = x"
    by (metis append_Cons nth_append_length)
  show ?case
  proof (cases "js_lt (?k x) (?k ((v # xs) ! i))")
    case True
    let ?n = "length (v # xs)"
    have sel: "cheapest price v (xs @ [x]) = x"
      using True i(2) by (simp add: cheapest_snoc cheaper_def)
    have a: "\<forall>j < length (v # xs @ [x]). \<not> js_lt (?k ((v # xs @ [x]) ! j)) (?k x)"
    proof (intro allI impI)
      fix j assume "j < length (v # xs @ [x])"
      then consider "j < ?n" | "j = ?n" by fastforce
      then show "\<not> js_lt (?k ((v # xs @ [x]) ! j)) (?k x)"
      proof cases
        case 1
        with least have "\<not> js_lt (?k ((v # xs) ! j)) (?k ((v # xs) ! i))" by blast
        with True have "\<not> js_lt (?k ((v # xs) ! j)) (?k x)" using js_lt_trans by blast
        with 1 old show ?thesis by simp
      next
        case 2
        with new show ?thesis by (simp add: js_lt_irrefl)
      qed
    qed
    have b: "\<forall>j < ?n. js_lt (?k x) (?k ((v # xs @ [x]) ! j))"
    proof (intro allI impI)
      fix j assume j: "j < ?n"
      with least have "\<not> js_lt (?k ((v # xs) ! j)) (?k ((v # xs) ! i))" by blast
      with True have "js_lt (?k x) (?k ((v # xs) ! j))"
        using js_lt_not [OF orInfinity_not_NaN orInfinity_not_NaN] by blast
      with j old show "js_lt (?k x) (?k ((v # xs @ [x]) ! j))" by simp
    qed
    from sel a b new show ?thesis
      by (intro exI [of _ ?n]) simp
  next
    case False
    have sel: "cheapest price v (xs @ [x]) = (v # xs) ! i"
      using False i(2) by (simp add: cheapest_snoc cheaper_def)
    have a: "\<forall>j < length (v # xs @ [x]). \<not> js_lt (?k ((v # xs @ [x]) ! j)) (?k ((v # xs) ! i))"
    proof (intro allI impI)
      fix j assume "j < length (v # xs @ [x])"
      then consider "j < length (v # xs)" | "j = length (v # xs)" by fastforce
      then show "\<not> js_lt (?k ((v # xs @ [x]) ! j)) (?k ((v # xs) ! i))"
      proof cases
        case 1
        with least old show ?thesis by simp
      next
        case 2
        with new False show ?thesis by simp
      qed
    qed
    have b: "\<forall>j < i. js_lt (?k ((v # xs) ! i)) (?k ((v # xs @ [x]) ! j))"
      using first i(1) old by simp
    from sel a b i(1) old [OF i(1)] show ?thesis
      by (intro exI [of _ i]) simp
  qed
qed

lemma valid_usable: "p \<in> set (validPricing ps) \<Longrightarrow> registrationPrice p = Some (orInfinity (registrationPrice p))"
  by (auto simp: validPricing_def usable_def orInfinity_def split: option.splits)

text \<open>
  The key of the comparison, \<^verbatim>\<open>price || Infinity\<close>, written out: a missing price, a
  price of zero and \<^verbatim>\<open>NaN\<close> all rank as \<^verbatim>\<open>Infinity\<close>; any other price ranks as itself.
\<close>

lemma orInfinity_explicit:
  "orInfinity p = (case p of None \<Rightarrow> PosInf | Some x \<Rightarrow> if x = NaN \<or> x = Fin 0 then PosInf else x)"
  by (auto simp: orInfinity_def truthy_def split: option.splits)

lemma js_lt_PosInf: "y \<noteq> NaN \<Longrightarrow> y \<noteq> PosInf \<Longrightarrow> js_lt y PosInf"
  by (cases y) auto

lemma cheapest_least:
  "cheapest price v vs \<in> set (v # vs)
   \<and> (\<forall>q \<in> set (v # vs). \<not> js_lt (orInfinity (price q)) (orInfinity (price (cheapest price v vs))))"
proof -
  from cheapest_first_min [of v vs price] obtain i where i: "i < length (v # vs)"
    and sel: "cheapest price v vs = (v # vs) ! i"
    and least: "\<forall>j < length (v # vs). \<not> js_lt (orInfinity (price ((v # vs) ! j))) (orInfinity (price ((v # vs) ! i)))"
    by blast
  from i sel have "cheapest price v vs \<in> set (v # vs)" by (metis nth_mem)
  moreover have "\<forall>q \<in> set (v # vs). \<not> js_lt (orInfinity (price q)) (orInfinity (price (cheapest price v vs)))"
  proof
    fix q assume "q \<in> set (v # vs)"
    then obtain j where "j < length (v # vs)" "q = (v # vs) ! j" by (metis in_set_conv_nth)
    with least sel show "\<not> js_lt (orInfinity (price q)) (orInfinity (price (cheapest price v vs)))"
      by simp
  qed
  ultimately show ?thesis by blast
qed

text \<open>
  A quote with a price that counts (present, not zero, not \<^verbatim>\<open>NaN\<close>, not \<^verbatim>\<open>Infinity\<close>)
  forces the chosen quote to have a price that counts, and one that is not greater.
\<close>

lemma cheapest_counts:
  assumes q: "q \<in> set (v # vs)" and y: "price q = Some y" "y \<noteq> NaN" "y \<noteq> Fin 0" "y \<noteq> PosInf"
  shows "\<exists>x. price (cheapest price v vs) = Some x \<and> x \<noteq> NaN \<and> x \<noteq> Fin 0 \<and> \<not> js_lt y x"
proof -
  let ?c = "cheapest price v vs"
  from y have ky: "orInfinity (price q) = y" by (simp add: orInfinity_explicit)
  from cheapest_least [of price v vs] q ky have le: "\<not> js_lt y (orInfinity (price ?c))" by auto
  show ?thesis
  proof (cases "\<exists>x. price ?c = Some x \<and> x \<noteq> NaN \<and> x \<noteq> Fin 0")
    case True
    then obtain x where x: "price ?c = Some x" "x \<noteq> NaN" "x \<noteq> Fin 0" by blast
    then have "orInfinity (price ?c) = x" by (simp add: orInfinity_explicit)
    with le x show ?thesis by simp
  next
    case False
    then have "orInfinity (price ?c) = PosInf"
      by (auto simp: orInfinity_explicit split: option.splits)
    with le js_lt_PosInf [OF y(2) y(4)] show ?thesis by simp
  qed
qed

section \<open>The cheapest quote: the claim\<close>

text \<open>
  C5, as the code has it. On a non-empty list of valid quotes (those that are available
  with a registration price that is present, not zero and not \<^verbatim>\<open>NaN\<close>), the cheapest
  registration and the cheapest renewal are each the first quote of least rank in input
  order: no quote of the list ranks lower on that axis, and every quote before the chosen
  one ranks strictly higher, so a tie goes to the quote met first. The rank is the one the
  source compares, \<^verbatim>\<open>price || Infinity\<close>: the price itself, except that a missing price,
  a price of zero and \<^verbatim>\<open>NaN\<close> rank as \<^verbatim>\<open>Infinity\<close>. So the chosen quote has the least
  price among the quotes whose price on the axis counts, as soon as one of them has a
  price other than \<^verbatim>\<open>Infinity\<close>; on the registration axis every valid quote ranks as its
  price. Both \<^verbatim>\<open>analyzePricing\<close> and \<^verbatim>\<open>processPricingData\<close> report that quote. The
  property holds for any price axis.
\<close>

theorem cheapest_is_first_minimum:
  assumes "validPricing ps = v # vs"
  shows "(\<exists>i < length (v # vs).
            cheapest price v vs = (v # vs) ! i
          \<and> (\<forall>j < length (v # vs). \<not> js_lt (orInfinity (price ((v # vs) ! j))) (orInfinity (price ((v # vs) ! i))))
          \<and> (\<forall>j < i. js_lt (orInfinity (price ((v # vs) ! i))) (orInfinity (price ((v # vs) ! j)))))
       \<and> (\<forall>p. orInfinity p
                = (case p of None \<Rightarrow> PosInf | Some x \<Rightarrow> if x = NaN \<or> x = Fin 0 then PosInf else x))
       \<and> (\<forall>q \<in> set (v # vs). \<forall>y.
              price q = Some y \<and> y \<noteq> NaN \<and> y \<noteq> Fin 0 \<and> y \<noteq> PosInf
              \<longrightarrow> (\<exists>x. price (cheapest price v vs) = Some x \<and> x \<noteq> NaN \<and> x \<noteq> Fin 0 \<and> \<not> js_lt y x))
       \<and> (\<forall>q \<in> set (v # vs). registrationPrice q = Some (orInfinity (registrationPrice q)))
       \<and> cheapestRegistration (analyzePricing ps)
           = Some \<lparr>ref_provider = provider (cheapest registrationPrice v vs),
                   ref_price = registrationPrice (cheapest registrationPrice v vs),
                   ref_currency = currency (cheapest registrationPrice v vs)\<rparr>
       \<and> cheapestRenewal (analyzePricing ps)
           = Some \<lparr>ref_provider = provider (cheapest renewalPrice v vs),
                   ref_price = renewalPrice (cheapest renewalPrice v vs),
                   ref_currency = currency (cheapest renewalPrice v vs)\<rparr>
       \<and> cell_bestRegProvider (processPricingData (Value (Pricing \<lparr>domain_ar = d, isAvailable = a, pricing_ar = ps, checkedAt = t\<rparr>)))
           = provider (cheapest registrationPrice v vs)
       \<and> cell_bestRenewalProvider (processPricingData (Value (Pricing \<lparr>domain_ar = d, isAvailable = a, pricing_ar = ps, checkedAt = t\<rparr>)))
           = provider (cheapest renewalPrice v vs)"
proof -
  have rank: "\<forall>p. orInfinity p
                = (case p of None \<Rightarrow> PosInf | Some x \<Rightarrow> if x = NaN \<or> x = Fin 0 then PosInf else x)"
    using orInfinity_explicit by blast
  have counts: "\<forall>q \<in> set (v # vs). \<forall>y.
              price q = Some y \<and> y \<noteq> NaN \<and> y \<noteq> Fin 0 \<and> y \<noteq> PosInf
              \<longrightarrow> (\<exists>x. price (cheapest price v vs) = Some x \<and> x \<noteq> NaN \<and> x \<noteq> Fin 0 \<and> \<not> js_lt y x)"
    using cheapest_counts [of _ v vs price] by blast
  have reg: "\<forall>q \<in> set (v # vs). registrationPrice q = Some (orInfinity (registrationPrice q))"
    using assms valid_usable [of _ ps] by simp
  have an: "cheapestRegistration (analyzePricing ps)
           = Some \<lparr>ref_provider = provider (cheapest registrationPrice v vs),
                   ref_price = registrationPrice (cheapest registrationPrice v vs),
                   ref_currency = currency (cheapest registrationPrice v vs)\<rparr>"
       "cheapestRenewal (analyzePricing ps)
           = Some \<lparr>ref_provider = provider (cheapest renewalPrice v vs),
                   ref_price = renewalPrice (cheapest renewalPrice v vs),
                   ref_currency = currency (cheapest renewalPrice v vs)\<rparr>"
    using assms by (simp_all add: analyzePricing_def Let_def)
  have cells: "cell_bestRegProvider (processPricingData (Value (Pricing \<lparr>domain_ar = d, isAvailable = a, pricing_ar = ps, checkedAt = t\<rparr>)))
           = provider (cheapest registrationPrice v vs)"
     "cell_bestRenewalProvider (processPricingData (Value (Pricing \<lparr>domain_ar = d, isAvailable = a, pricing_ar = ps, checkedAt = t\<rparr>)))
           = provider (cheapest renewalPrice v vs)"
    using assms by (simp_all add: processPricingData_def present_def pricingOf_def Let_def)
  from cheapest_first_min [of v vs price] rank counts reg an cells show ?thesis by blast
qed

text \<open>
  Three valid quotes after a failed one: 8 is the least registration price, offered by
  Porkbun and then by GoDaddy; 12 is the least renewal price, offered by Cloudflare and
  then by GoDaddy, Porkbun having none.
\<close>

theorem cheapest_is_first_minimum_witness:
  "validPricing [quoteFailed, quoteA, quoteB, quoteC] = [quoteA, quoteB, quoteC]
   \<and> cheapest registrationPrice quoteA [quoteB, quoteC] = quoteB
   \<and> cheapest renewalPrice quoteA [quoteB, quoteC] = quoteA
   \<and> (\<exists>x. renewalPrice (cheapest renewalPrice quoteA [quoteB, quoteC]) = Some x
          \<and> x \<noteq> NaN \<and> x \<noteq> Fin 0 \<and> \<not> js_lt (Fin 12) x)
   \<and> cheapestRegistration (analyzePricing [quoteFailed, quoteA, quoteB, quoteC])
       = Some \<lparr>ref_provider = ''Porkbun'', ref_price = Some (Fin 8), ref_currency = ''USD''\<rparr>
   \<and> cheapestRenewal (analyzePricing [quoteFailed, quoteA, quoteB, quoteC])
       = Some \<lparr>ref_provider = ''Cloudflare'', ref_price = Some (Fin 12), ref_currency = ''USD''\<rparr>"
proof -
  have v: "validPricing [quoteFailed, quoteA, quoteB, quoteC] = [quoteA, quoteB, quoteC]"
    by (simp add: validPricing_def quoteFailed_def quoteA_def quoteB_def quoteC_def usable_def truthy_def)
  have r: "cheapest registrationPrice quoteA [quoteB, quoteC] = quoteB"
    by (simp add: cheapest_def cheaper_def quoteA_def quoteB_def quoteC_def orInfinity_def truthy_def)
  have n: "cheapest renewalPrice quoteA [quoteB, quoteC] = quoteA"
    by (simp add: cheapest_def cheaper_def quoteA_def quoteB_def quoteC_def orInfinity_def truthy_def)
  note reg = cheapest_is_first_minimum [OF v, of registrationPrice]
  note ren = cheapest_is_first_minimum [OF v, of renewalPrice]
  have c: "quoteC \<in> set [quoteA, quoteB, quoteC]" by simp
  have p: "renewalPrice quoteC = Some (Fin 12) \<and> Fin 12 \<noteq> NaN \<and> Fin 12 \<noteq> Fin 0 \<and> Fin 12 \<noteq> PosInf"
    by (simp add: quoteC_def)
  have least: "\<exists>x. renewalPrice (cheapest renewalPrice quoteA [quoteB, quoteC]) = Some x
          \<and> x \<noteq> NaN \<and> x \<noteq> Fin 0 \<and> \<not> js_lt (Fin 12) x"
    using ren [THEN conjunct2, THEN conjunct2, THEN conjunct1, THEN bspec, OF c, THEN spec, THEN mp, OF p] .
  have an: "cheapestRegistration (analyzePricing [quoteFailed, quoteA, quoteB, quoteC])
       = Some \<lparr>ref_provider = ''Porkbun'', ref_price = Some (Fin 8), ref_currency = ''USD''\<rparr>"
    "cheapestRenewal (analyzePricing [quoteFailed, quoteA, quoteB, quoteC])
       = Some \<lparr>ref_provider = ''Cloudflare'', ref_price = Some (Fin 12), ref_currency = ''USD''\<rparr>"
    using reg [THEN conjunct2, THEN conjunct2, THEN conjunct2, THEN conjunct2] r n
    by (simp_all add: quoteA_def quoteB_def)
  from v r n least an show ?thesis by blast
qed

text \<open>
  C5 as stated fails. Two valid quotes with renewal prices 12 and 0: the minimum price on
  the renewal axis is 0, and the quote at 12 is selected, in the analysis and in the CSV
  cell, because a price of zero ranks as \<^verbatim>\<open>Infinity\<close>. And a quote that is valid in the
  specification's sense with a registration price of 0 has the minimum price on the
  registration axis and is not compared at all: the filter drops it, and the quote at
  10 is selected.
\<close>

theorem zero_price_is_not_cheapest:
  "validPricing [quoteA, quoteFreeRenewal] = [quoteA, quoteFreeRenewal]
   \<and> renewalPrice quoteA = Some (Fin 12)
   \<and> renewalPrice quoteFreeRenewal = Some (Fin 0)
   \<and> js_lt (Fin 0) (Fin 12)
   \<and> cheapest renewalPrice quoteA [quoteFreeRenewal] = quoteA
   \<and> cheapestRenewal (analyzePricing [quoteA, quoteFreeRenewal])
       = Some \<lparr>ref_provider = ''Cloudflare'', ref_price = Some (Fin 12), ref_currency = ''USD''\<rparr>
   \<and> cell_bestRenewalProvider (processPricingData (Value (Pricing
         \<lparr>domain_ar = ''example.com'', isAvailable = True,
          pricing_ar = [quoteA, quoteFreeRenewal], checkedAt = 0\<rparr>)))
       = ''Cloudflare''
   \<and> valid_quote_spec quoteFreeRegistration
   \<and> registrationPrice quoteFreeRegistration = Some (Fin 0)
   \<and> validPricing [quoteFreeRegistration, quoteA] = [quoteA]
   \<and> cheapestRegistration (analyzePricing [quoteFreeRegistration, quoteA])
       = Some \<lparr>ref_provider = ''Cloudflare'', ref_price = Some (Fin 10), ref_currency = ''USD''\<rparr>"
proof -
  have v: "validPricing [quoteA, quoteFreeRenewal] = [quoteA, quoteFreeRenewal]"
    by (simp add: validPricing_def quoteA_def quoteFreeRenewal_def usable_def truthy_def)
  have c: "cheapest renewalPrice quoteA [quoteFreeRenewal] = quoteA"
    by (simp add: cheapest_def cheaper_def quoteA_def quoteFreeRenewal_def orInfinity_def truthy_def)
  have an: "cheapestRenewal (analyzePricing [quoteA, quoteFreeRenewal])
       = Some \<lparr>ref_provider = ''Cloudflare'', ref_price = Some (Fin 12), ref_currency = ''USD''\<rparr>"
    by (simp add: analyzePricing_def v Let_def c) (simp add: quoteA_def)
  have cell: "cell_bestRenewalProvider (processPricingData (Value (Pricing
         \<lparr>domain_ar = ''example.com'', isAvailable = True,
          pricing_ar = [quoteA, quoteFreeRenewal], checkedAt = 0\<rparr>)))
       = ''Cloudflare''"
    by (simp add: processPricingData_def present_def pricingOf_def v Let_def c) (simp add: quoteA_def)
  have w: "validPricing [quoteFreeRegistration, quoteA] = [quoteA]"
    by (simp add: validPricing_def quoteA_def quoteFreeRegistration_def usable_def truthy_def)
  have an2: "cheapestRegistration (analyzePricing [quoteFreeRegistration, quoteA])
       = Some \<lparr>ref_provider = ''Cloudflare'', ref_price = Some (Fin 10), ref_currency = ''USD''\<rparr>"
    by (simp add: analyzePricing_def w Let_def cheapest_def) (simp add: quoteA_def)
  have rest: "renewalPrice quoteA = Some (Fin 12)" "renewalPrice quoteFreeRenewal = Some (Fin 0)"
    "js_lt (Fin 0) (Fin 12)" "valid_quote_spec quoteFreeRegistration"
    "registrationPrice quoteFreeRegistration = Some (Fin 0)"
    by (simp_all add: quoteA_def quoteFreeRenewal_def quoteFreeRegistration_def valid_quote_spec_def)
  from v c an cell w an2 rest show ?thesis by blast
qed

section \<open>Which quotes are compared\<close>














lemma positive_not_NaN: "\<forall>x \<in> set (filter (js_lt (Fin 0)) xs). x \<noteq> NaN"
  by auto






section \<open>No valid quote\<close>




section \<open>Threat level and findings\<close>

text \<open>
  C4. The level is \<^verbatim>\<open>LOW\<close> for no findings; \<^verbatim>\<open>HIGH\<close> when the text of some finding
  contains \<^verbatim>\<open>Invalid SSL\<close> or \<^verbatim>\<open>No SSL\<close>; otherwise \<^verbatim>\<open>MEDIUM\<close> when some finding
  contains \<^verbatim>\<open>expires\<close>; otherwise \<^verbatim>\<open>LOW\<close>.
\<close>

theorem getThreatLevel_cases:
  "getThreatLevel threats =
     (if threats = [] then ''LOW''
      else if \<exists>t \<in> set threats. (\<exists>u v. t = u @ ''Invalid SSL'' @ v) \<or> (\<exists>u v. t = u @ ''No SSL'' @ v)
        then ''HIGH''
      else if \<exists>t \<in> set threats. \<exists>u v. t = u @ ''expires'' @ v then ''MEDIUM''
      else ''LOW'')"
  by (simp add: getThreatLevel_def list_ex_iff str_includes_iff)

text \<open>
  The levels of the sample reports: a missing certificate is \<^verbatim>\<open>HIGH\<close>, ten days to
  expiry is \<^verbatim>\<open>MEDIUM\<close>, a recent registration alone is \<^verbatim>\<open>LOW\<close>.
\<close>

lemma getThreatLevel_examples:
  "getThreatLevel [''No SSL certificate detected''] = ''HIGH''"
  "getThreatLevel [''SSL expires in 10 days''] = ''MEDIUM''"
  "getThreatLevel [''Domain registered recently''] = ''LOW''"
  "getThreatLevel [''SSL expires in 10 days'', ''Invalid SSL certificate''] = ''HIGH''"
  "getThreatLevel [] = ''LOW''"
  by (simp_all add: getThreatLevel_def)

text \<open>
  C3, as the code has it. The findings are those of the four rules in the order expiry,
  missing certificate, recent registration, invalid certificate; each rule contributes
  its finding exactly when it applies.
\<close>

theorem assessThreats_rules:
  "assessThreats rt info
     = expiryThreat info @ missingThreat info @ recentThreat rt info @ invalidThreat info
   \<and> (\<forall>c d. ssl info = Value (Ssl c) \<and> daysUntilExpiry c = Some d \<and> d < 30
        \<longrightarrow> expiryThreat info = [''SSL expires in '' @ show_int d @ '' days''])
   \<and> ((\<nexists>c d. ssl info = Value (Ssl c) \<and> daysUntilExpiry c = Some d \<and> d < 30)
        \<longrightarrow> expiryThreat info = [])
   \<and> missingThreat info
       = (if ssl info = Undefined \<or> ssl info = Null then [''No SSL certificate detected''] else [])
   \<and> recentThreat rt info
       = (if \<exists>w s t. whois info = Value (Whois w) \<and> registrationDate w = Some s \<and> s \<noteq> []
                     \<and> parseDate rt s = Some t \<and> now rt - t < 30 * 86400000
          then [''Domain registered recently''] else [])
   \<and> invalidThreat info
       = (if \<exists>c. ssl info = Value (Ssl c) \<and> isValid c = Some False
          then [''Invalid SSL certificate''] else [])"
proof -
  have e1: "\<forall>c d. ssl info = Value (Ssl c) \<and> daysUntilExpiry c = Some d \<and> d < 30
        \<longrightarrow> expiryThreat info = [''SSL expires in '' @ show_int d @ '' days'']"
    by (auto simp: expiryThreat_def sslOf_def)
  have e2: "(\<nexists>c d. ssl info = Value (Ssl c) \<and> daysUntilExpiry c = Some d \<and> d < 30)
        \<longrightarrow> expiryThreat info = []"
    by (auto simp: expiryThreat_def sslOf_def split: slotval.splits payload.splits option.splits)
  have m: "missingThreat info
       = (if ssl info = Undefined \<or> ssl info = Null then [''No SSL certificate detected''] else [])"
    by (auto simp: missingThreat_def present_def split: slotval.splits)
  have days: "((of_int k :: rat) / (1000 * 60 * 60 * 24) < 30) = (k < 30 * 86400000)" for k :: int
    by (simp add: divide_less_eq)
  have r: "recentThreat rt info
       = (if \<exists>w s t. whois info = Value (Whois w) \<and> registrationDate w = Some s \<and> s \<noteq> []
                     \<and> parseDate rt s = Some t \<and> now rt - t < 30 * 86400000
          then [''Domain registered recently''] else [])"
    unfolding recentThreat_def whoisOf_def days
    by (auto split: slotval.splits payload.splits option.splits)
  have i: "invalidThreat info
       = (if \<exists>c. ssl info = Value (Ssl c) \<and> isValid c = Some False
          then [''Invalid SSL certificate''] else [])"
    by (auto simp: invalidThreat_def sslOf_def split: slotval.splits payload.splits option.splits)
  from e1 e2 m r i show ?thesis by (simp add: assessThreats_def)
qed

lemma show_int_10: "show_int 10 = ''10''"
  by (simp add: show_int_def digits.simps)

text \<open>
  A certificate with ten days left gives the one finding about expiry; a recent
  registration with an invalid certificate gives two findings, registration first.
\<close>

theorem assessThreats_rules_witness:
  "assessThreats sampleRuntime expiringInfo = [''SSL expires in 10 days'']
   \<and> assessThreats sampleRuntime recentInvalidInfo
       = [''Domain registered recently'', ''Invalid SSL certificate'']"
proof -
  have e: "expiryThreat expiringInfo = [''SSL expires in '' @ show_int 10 @ '' days'']"
    using assessThreats_rules [of sampleRuntime expiringInfo]
    by (simp add: expiringInfo_def)
  have "assessThreats sampleRuntime expiringInfo = [''SSL expires in 10 days'']"
    using assessThreats_rules [of sampleRuntime expiringInfo] e
    by (simp add: expiringInfo_def show_int_10)
  moreover have "assessThreats sampleRuntime recentInvalidInfo
       = [''Domain registered recently'', ''Invalid SSL certificate'']"
    using assessThreats_rules [of sampleRuntime recentInvalidInfo]
    by (simp add: recentInvalidInfo_def sampleRuntime_def sampleParse_def)
  ultimately show ?thesis by blast
qed

text \<open>
  C3 as stated fails: with a certificate marked invalid and a registration one day old,
  the specification's order puts the invalid certificate before the recent registration,
  and the code reports them the other way round.
\<close>

theorem invalid_after_recent:
  "assessThreats sampleRuntime recentInvalidInfo
     = [''Domain registered recently'', ''Invalid SSL certificate'']
   \<and> findings_spec_order sampleRuntime recentInvalidInfo
     = [''Invalid SSL certificate'', ''Domain registered recently'']
   \<and> assessThreats sampleRuntime recentInvalidInfo \<noteq> findings_spec_order sampleRuntime recentInvalidInfo"
  by (simp add: assessThreats_def findings_spec_order_def expiryThreat_def missingThreat_def
      recentThreat_def invalidThreat_def sampleRuntime_def sampleParse_def recentInvalidInfo_def
      sslOf_def whoisOf_def present_def)

section \<open>Rows of the CSV export\<close>

lemma length_addAll: "length (addAll calls csv) = length csv + length calls"
  by (induction calls arbitrary: csv) (auto simp: addAll_def addDomain_def)

lemma failed_cells:
  "rowCells rt failedInfo
     = [''example.com'', [], [], [], [], [], [], [], [], [], [], [], [], [], [],
        [], [], [], [], ''0'', [], ''Unknown'', [], [], [], [], [], ''HIGH'',
        ''No SSL certificate detected'']"
  by (simp add: rowCells_def failedInfo_def whoisOf_def dnsOf_def sslOf_def networkOf_def
      subdomainsOf_def joined_def orEmpty_def processPricingData_def present_def blankCells_def
      assessThreats_def expiryThreat_def missingThreat_def recentThreat_def invalidThreat_def
      getThreatLevel_def)

lemma failed_row:
  "addDomain rt failedInfo csv
     = csv @ [''example.com,,,,,,,,,,,,,,,,,,,0,,Unknown,,,,,,HIGH,No SSL certificate detected'']"
  by (simp add: addDomain_def failed_cells escapeCSV_def comma_def dquote_def newline_def)

text \<open>
  C6. After any sequence of \<^verbatim>\<open>addDomain\<close> calls on a new service, the row count (the
  lines without the header) is the number of calls; each call adds one row whatever the
  report holds, and a report whose every source failed adds a row that is blank but for
  the domain, the subdomain count, the availability and the threat cells.
\<close>

theorem row_per_addDomain:
  "getRowCount (addAll calls newCSVExportService) = int (length calls)
   \<and> getRowCount (addDomain rt info csvData) = getRowCount csvData + 1
   \<and> addDomain rt failedInfo csvData
       = csvData @ [''example.com,,,,,,,,,,,,,,,,,,,0,,Unknown,,,,,,HIGH,No SSL certificate detected'']"
  by (simp add: getRowCount_def length_addAll newCSVExportService_def failed_row) (simp add: addDomain_def)

section \<open>The slots of a report\<close>

text \<open>
  On the single-domain path the assigned slots are exactly the active sources, and each
  holds the result of its own source; on the multi-domain path the assigned slots are
  the active sources without pricing.
\<close>

lemma investigate_populated:
  "\<exists>info. investigate opts src d = Some info \<and> populated info = activeSources opts"
  by (cases "quick opts"; cases "subdomains_opt opts"; cases "checkPricing opts")
     (auto simp: investigate_def resultAt_def emptyInfo_def populated_def slotOf_def activeSources_def
        settledValue_def gatherWhoisIntelligence_def gatherDnsIntelligence_def gatherSslIntelligence_def
        gatherNetworkIntelligence_def gatherSubdomainIntelligence_def gatherPricingIntelligence_def
        split: outcome.splits)

lemma investigate_slots:
  "\<exists>info. investigate opts src d = Some info
      \<and> whois info = settledValue (gatherWhoisIntelligence (whoisLookup src))
      \<and> dns info = settledValue (gatherDnsIntelligence (dnsLookup src))
      \<and> ssl info = settledValue (gatherSslIntelligence (getCertificate src))
      \<and> network info
          = (if quick opts then Undefined
             else settledValue (gatherNetworkIntelligence (getNetworkInfo src)))
      \<and> subdomains info
          = (if subdomains_opt opts
             then settledValue (gatherSubdomainIntelligence (discoverSubdomains src)) else Undefined)
      \<and> pricing info
          = (if checkPricing opts
             then settledValue (gatherPricingIntelligence (pricingCheck src)) else Undefined)
      \<and> security info = Undefined"
  by (cases "quick opts"; cases "subdomains_opt opts"; cases "checkPricing opts")
     (simp_all add: investigate_def resultAt_def emptyInfo_def)

lemma investigateSingle_populated:
  "\<exists>info. investigateSingle opts src d = Some info
      \<and> populated info = activeSources opts - {PricingSlot}"
  by (cases "quick opts"; cases "subdomains_opt opts"; cases "checkPricing opts")
     (auto simp: investigateSingle_def resultAt_def emptyInfo_def populated_def slotOf_def activeSources_def
        settledValue_def gatherWhoisIntelligence_def gatherDnsIntelligence_def gatherSslIntelligence_def
        gatherNetworkIntelligence_def gatherSubdomainIntelligence_def gatherPricingIntelligence_def
        split: outcome.splits)

text \<open>
  C1, at the input where it fails. With pricing switched on and every service
  answering, \<^verbatim>\<open>investigateSingle\<close> leaves \<^verbatim>\<open>pricing\<close> unassigned although pricing is
  an active source; \<^verbatim>\<open>investigate\<close> on the same input assigns it.
\<close>

theorem investigateSingle_leaves_pricing_unset:
  "(\<exists>info. investigateSingle pricingOptions sampleSources ''example.com'' = Some info
        \<and> pricing info = Undefined
        \<and> populated info = {WhoisSlot, DnsSlot, SslSlot, NetworkSlot})
   \<and> activeSources pricingOptions = {WhoisSlot, DnsSlot, SslSlot, NetworkSlot, PricingSlot}
   \<and> (\<exists>info. investigate pricingOptions sampleSources ''example.com'' = Some info
        \<and> pricing info = Value (Pricing samplePricing)
        \<and> populated info = {WhoisSlot, DnsSlot, SslSlot, NetworkSlot, PricingSlot})"
proof -
  have single: "investigateSingle pricingOptions sampleSources ''example.com''
      = Some \<lparr>domain = ''example.com'', whois = Value (Whois sampleWhois), dns = Value (Dns sampleDns),
              ssl = Value (Ssl sampleSsl), security = Undefined, network = Value (Network sampleNetwork),
              subdomains = Undefined, pricing = Undefined\<rparr>"
    by (simp add: investigateSingle_def resultAt_def emptyInfo_def settledValue_def pricingOptions_def
        sampleSources_def gatherWhoisIntelligence_def gatherDnsIntelligence_def
        gatherSslIntelligence_def gatherNetworkIntelligence_def)
  have one: "investigate pricingOptions sampleSources ''example.com''
      = Some \<lparr>domain = ''example.com'', whois = Value (Whois sampleWhois), dns = Value (Dns sampleDns),
              ssl = Value (Ssl sampleSsl), security = Undefined, network = Value (Network sampleNetwork),
              subdomains = Undefined, pricing = Value (Pricing samplePricing)\<rparr>"
    by (simp add: investigate_def resultAt_def emptyInfo_def settledValue_def pricingOptions_def
        sampleSources_def gatherWhoisIntelligence_def gatherDnsIntelligence_def
        gatherSslIntelligence_def gatherNetworkIntelligence_def gatherPricingIntelligence_def)
  have active: "activeSources pricingOptions = {WhoisSlot, DnsSlot, SslSlot, NetworkSlot, PricingSlot}"
    by (auto simp: activeSources_def pricingOptions_def)
  from single one active show ?thesis
    by (auto simp: populated_def slotOf_def)
qed

section \<open>Availability and pricing: the claim\<close>

lemma collectPricing_unfold:
  "collectPricing ps =
     List.map_filter id
       [settledQuote 0 (cloudflarePromise ps), settledQuote 1 (namecheapPromise ps),
        settledQuote 2 (porkbunPromise ps), settledQuote 3 (godaddyPromise ps),
        settledQuote 4 (namecomPromise ps)]"
  by (simp add: collectPricing_def pricingResults_def enumerate_eq_zip upt_rec eval_nat_numeral)

lemma estimatedQuote_provider: "provider (estimatedQuote name link e) = name"
  by (simp add: estimatedQuote_def)

lemma pricedOrThrow_provider: "provider (pricedOrThrow name link r) = name"
  by (simp add: pricedOrThrow_def failedQuote_def liveQuote_def split: outcome.splits option.splits)

lemma live_providers:
  "map provider [checkCloudflare_live net d, checkNamecheap_live net d, checkPorkbun_live net d,
                 checkGoDaddy_live net d, checkNamecom_live net d]
     = [''Cloudflare'', ''Namecheap'', ''Porkbun'', ''GoDaddy'', ''Name.com'']"
  by (simp add: checkCloudflare_live_def checkNamecheap_live_def checkPorkbun_live_def
      checkGoDaddy_live_def checkNamecom_live_def pricedOrThrow_provider failedQuote_def liveQuote_def
      Let_def split: outcome.splits option.splits)

lemma estimate_providers:
  "map provider [checkCloudflare d, checkNamecheap d, checkPorkbun d, checkGoDaddy d, checkNamecom d]
     = [''Cloudflare'', ''Namecheap'', ''Porkbun'', ''GoDaddy'', ''Name.com'']"
  by (simp add: checkCloudflare_def checkNamecheap_def checkPorkbun_def checkGoDaddy_def
      checkNamecom_def estimatedQuote_provider)

lemma asyncTry_resolves: "(\<And>e. \<exists>v. handler e = Resolved v) \<Longrightarrow> \<exists>v. asyncTry body handler = Resolved v"
  by (cases body) (auto simp: asyncTry_def)

lemma quickAvailabilityCheck_resolves: "\<exists>a. quickAvailabilityCheck response = Resolved a"
  unfolding quickAvailabilityCheck_def by (rule asyncTry_resolves) blast

lemma quickAvailabilityCheck_live_resolves: "\<exists>a. quickAvailabilityCheck_live porkbun response = Resolved a"
  unfolding quickAvailabilityCheck_live_def by (rule asyncTry_resolves) blast

lemma settledQuote_Some:
  "r \<noteq> Fulfilled None \<Longrightarrow>
     settledQuote k r = Some (case r of Fulfilled v \<Rightarrow> the v | Rejected reason \<Rightarrow> rejectedQuote k reason)"
  by (cases r) (auto simp: settledQuote_def)

lemma collectPricing_five:
  assumes "\<forall>r \<in> set (pricingResults ps). r \<noteq> Fulfilled None"
  shows "collectPricing ps =
     map (\<lambda>(k, r). case r of Fulfilled v \<Rightarrow> the v | Rejected reason \<Rightarrow> rejectedQuote k reason)
       (enumerate 0 (pricingResults ps))"
  using assms
  by (simp add: collectPricing_unfold pricingResults_def settledQuote_Some List.map_filter_simps
      enumerate_eq_zip upt_rec eval_nat_numeral)

lemma rejectedQuote_explicit:
  "i < 5 \<Longrightarrow>
     rejectedQuote i reason
       = \<lparr>provider = [''Cloudflare'', ''Namecheap'', ''Porkbun'', ''GoDaddy'', ''Name.com''] ! i,
          available = False, registrationPrice = None, renewalPrice = None,
          currency = ''USD'', url = [],
          error = Some (case reason of
                          None \<Rightarrow> ''Failed to check pricing''
                        | Some m \<Rightarrow> if m = [] then ''Failed to check pricing'' else m)\<rparr>"
  by (simp add: rejectedQuote_def providers_def)

lemma available_slots:
  assumes nonnull: "\<forall>r \<in> set [cloudflarePromise ps, namecheapPromise ps, porkbunPromise ps,
                                godaddyPromise ps, namecomPromise ps]. r \<noteq> Fulfilled None"
  shows "length (collectPricing ps) = 5"
    and "i < 5 \<Longrightarrow>
           [cloudflarePromise ps, namecheapPromise ps, porkbunPromise ps,
            godaddyPromise ps, namecomPromise ps] ! i = Rejected reason \<Longrightarrow>
           collectPricing ps ! i = rejectedQuote i reason"
    and "i < 5 \<Longrightarrow>
           [cloudflarePromise ps, namecheapPromise ps, porkbunPromise ps,
            godaddyPromise ps, namecomPromise ps] ! i = Fulfilled (Some q) \<Longrightarrow>
           collectPricing ps ! i = q"
proof -
  from nonnull have nn: "\<forall>r \<in> set (pricingResults ps). r \<noteq> Fulfilled None"
    by (simp add: pricingResults_def)
  have len: "length (pricingResults ps) = 5" by (simp add: pricingResults_def)
  have at: "collectPricing ps ! i =
      (case pricingResults ps ! i of Fulfilled v \<Rightarrow> the v | Rejected reason \<Rightarrow> rejectedQuote i reason)"
    if "i < 5" for i
    using that len by (simp add: collectPricing_five [OF nn] nth_enumerate_eq)
  show "length (collectPricing ps) = 5"
    using len by (simp add: collectPricing_five [OF nn])
  show "collectPricing ps ! i = rejectedQuote i reason"
    if "i < 5" "[cloudflarePromise ps, namecheapPromise ps, porkbunPromise ps,
            godaddyPromise ps, namecomPromise ps] ! i = Rejected reason"
    using that at [of i] by (simp add: pricingResults_def)
  show "collectPricing ps ! i = q"
    if "i < 5" "[cloudflarePromise ps, namecheapPromise ps, porkbunPromise ps,
            godaddyPromise ps, namecomPromise ps] ! i = Fulfilled (Some q)"
    using that at [of i] by (simp add: pricingResults_def)
qed

text \<open>
  C10. \<^verbatim>\<open>checkAvailabilityAndPricing\<close> resolves in both versions of the service, for
  every domain and whatever the network answers: \<^verbatim>\<open>quickAvailabilityCheck\<close> resolves
  whether its lookup answers or throws, and the body after it rejects on no outcome of
  the five provider promises. A result that is not available has an empty pricing
  array. A result that is available has five quotes (no check being fulfilled with
  \<^verbatim>\<open>null\<close>): at each position the quote its own promise was fulfilled with, or, where
  the promise was rejected, a quote that is not available, has no prices, and carries
  the provider name of that position and the rejection's message (or
  \<^verbatim>\<open>Failed to check pricing\<close>) as its error. In both services the five quotes are
  those of the five checks, whose providers are Cloudflare, Namecheap, Porkbun, GoDaddy
  and Name.com in that order.
\<close>

theorem pricing_always_resolves:
  "(\<exists>a. quickAvailabilityCheck response = Resolved a)
   \<and> (\<exists>a. quickAvailabilityCheck_live porkbun response = Resolved a)
   \<and> checkAvailabilityAndPricing clock d (Resolved False) ps
       = Resolved \<lparr>domain_ar = d, isAvailable = False, pricing_ar = [], checkedAt = clock\<rparr>
   \<and> ((\<forall>r \<in> set [cloudflarePromise ps, namecheapPromise ps, porkbunPromise ps,
                    godaddyPromise ps, namecomPromise ps]. r \<noteq> Fulfilled None) \<longrightarrow>
        (\<exists>qs. checkAvailabilityAndPricing clock d (Resolved True) ps
                = Resolved \<lparr>domain_ar = d, isAvailable = True, pricing_ar = qs, checkedAt = clock\<rparr>
            \<and> length qs = 5
            \<and> (\<forall>i < 5. \<forall>reason.
                  [cloudflarePromise ps, namecheapPromise ps, porkbunPromise ps,
                   godaddyPromise ps, namecomPromise ps] ! i = Rejected reason \<longrightarrow>
                  qs ! i
                    = \<lparr>provider = [''Cloudflare'', ''Namecheap'', ''Porkbun'', ''GoDaddy'', ''Name.com''] ! i,
                       available = False, registrationPrice = None, renewalPrice = None,
                       currency = ''USD'', url = [],
                       error = Some (case reason of
                                       None \<Rightarrow> ''Failed to check pricing''
                                     | Some m \<Rightarrow> if m = [] then ''Failed to check pricing'' else m)\<rparr>)
            \<and> (\<forall>i < 5. \<forall>q.
                  [cloudflarePromise ps, namecheapPromise ps, porkbunPromise ps,
                   godaddyPromise ps, namecomPromise ps] ! i = Fulfilled (Some q) \<longrightarrow>
                  qs ! i = q)))
   \<and> (\<exists>a. estimateService clock response d
              = Resolved \<lparr>domain_ar = d, isAvailable = a,
                          pricing_ar = (if a then [checkCloudflare d, checkNamecheap d, checkPorkbun d,
                                                   checkGoDaddy d, checkNamecom d] else []),
                          checkedAt = clock\<rparr>)
   \<and> map provider [checkCloudflare d, checkNamecheap d, checkPorkbun d, checkGoDaddy d, checkNamecom d]
       = [''Cloudflare'', ''Namecheap'', ''Porkbun'', ''GoDaddy'', ''Name.com'']
   \<and> (\<exists>a. liveService clock net d
              = Resolved \<lparr>domain_ar = d, isAvailable = a,
                          pricing_ar = (if a then [checkCloudflare_live net d, checkNamecheap_live net d,
                                                   checkPorkbun_live net d, checkGoDaddy_live net d,
                                                   checkNamecom_live net d] else []),
                          checkedAt = clock\<rparr>)
   \<and> map provider [checkCloudflare_live net d, checkNamecheap_live net d, checkPorkbun_live net d,
                    checkGoDaddy_live net d, checkNamecom_live net d]
       = [''Cloudflare'', ''Namecheap'', ''Porkbun'', ''GoDaddy'', ''Name.com'']"
proof -
  have unavailable_result: "checkAvailabilityAndPricing clock d (Resolved False) ps
       = Resolved \<lparr>domain_ar = d, isAvailable = False, pricing_ar = [], checkedAt = clock\<rparr>"
    by (simp add: checkAvailabilityAndPricing_def)
  have available_result:
    "\<exists>qs. checkAvailabilityAndPricing clock d (Resolved True) ps
                = Resolved \<lparr>domain_ar = d, isAvailable = True, pricing_ar = qs, checkedAt = clock\<rparr>
            \<and> length qs = 5
            \<and> (\<forall>i < 5. \<forall>reason.
                  [cloudflarePromise ps, namecheapPromise ps, porkbunPromise ps,
                   godaddyPromise ps, namecomPromise ps] ! i = Rejected reason \<longrightarrow>
                  qs ! i
                    = \<lparr>provider = [''Cloudflare'', ''Namecheap'', ''Porkbun'', ''GoDaddy'', ''Name.com''] ! i,
                       available = False, registrationPrice = None, renewalPrice = None,
                       currency = ''USD'', url = [],
                       error = Some (case reason of
                                       None \<Rightarrow> ''Failed to check pricing''
                                     | Some m \<Rightarrow> if m = [] then ''Failed to check pricing'' else m)\<rparr>)
            \<and> (\<forall>i < 5. \<forall>q.
                  [cloudflarePromise ps, namecheapPromise ps, porkbunPromise ps,
                   godaddyPromise ps, namecomPromise ps] ! i = Fulfilled (Some q) \<longrightarrow>
                  qs ! i = q)"
    if nonnull: "\<forall>r \<in> set [cloudflarePromise ps, namecheapPromise ps, porkbunPromise ps,
                    godaddyPromise ps, namecomPromise ps]. r \<noteq> Fulfilled None"
  proof (intro exI [of _ "collectPricing ps"] conjI allI impI)
    show "checkAvailabilityAndPricing clock d (Resolved True) ps
        = Resolved \<lparr>domain_ar = d, isAvailable = True, pricing_ar = collectPricing ps, checkedAt = clock\<rparr>"
      by (simp add: checkAvailabilityAndPricing_def)
    show "length (collectPricing ps) = 5"
      by (rule available_slots(1) [OF nonnull])
  next
    fix i reason
    assume "i < 5" and "[cloudflarePromise ps, namecheapPromise ps, porkbunPromise ps,
                   godaddyPromise ps, namecomPromise ps] ! i = Rejected reason"
    then show "collectPricing ps ! i
        = \<lparr>provider = [''Cloudflare'', ''Namecheap'', ''Porkbun'', ''GoDaddy'', ''Name.com''] ! i,
           available = False, registrationPrice = None, renewalPrice = None,
           currency = ''USD'', url = [],
           error = Some (case reason of
                           None \<Rightarrow> ''Failed to check pricing''
                         | Some m \<Rightarrow> if m = [] then ''Failed to check pricing'' else m)\<rparr>"
      using available_slots(2) [OF nonnull] rejectedQuote_explicit by simp
  next
    fix i q
    assume "i < 5" and "[cloudflarePromise ps, namecheapPromise ps, porkbunPromise ps,
                   godaddyPromise ps, namecomPromise ps] ! i = Fulfilled (Some q)"
    then show "collectPricing ps ! i = q"
      by (rule available_slots(3) [OF nonnull])
  qed
  have est: "\<exists>a. estimateService clock response d
              = Resolved \<lparr>domain_ar = d, isAvailable = a,
                          pricing_ar = (if a then [checkCloudflare d, checkNamecheap d, checkPorkbun d,
                                                   checkGoDaddy d, checkNamecom d] else []),
                          checkedAt = clock\<rparr>"
  proof -
    from quickAvailabilityCheck_resolves obtain a where "quickAvailabilityCheck response = Resolved a"
      by blast
    then show ?thesis
      by (intro exI [of _ a])
         (simp add: estimateService_def checkAvailabilityAndPricing_def collectPricing_unfold
            settledQuote_def List.map_filter_simps)
  qed
  have live: "\<exists>a. liveService clock net d
              = Resolved \<lparr>domain_ar = d, isAvailable = a,
                          pricing_ar = (if a then [checkCloudflare_live net d, checkNamecheap_live net d,
                                                   checkPorkbun_live net d, checkGoDaddy_live net d,
                                                   checkNamecom_live net d] else []),
                          checkedAt = clock\<rparr>"
  proof -
    from quickAvailabilityCheck_live_resolves
    obtain a where "quickAvailabilityCheck_live (porkbunAvailability net) (dnsResolve net) = Resolved a"
      by blast
    then show ?thesis
      by (intro exI [of _ a])
         (simp add: liveService_def checkAvailabilityAndPricing_def collectPricing_unfold
            settledQuote_def List.map_filter_simps)
  qed
  from quickAvailabilityCheck_resolves quickAvailabilityCheck_live_resolves unavailable_result
    available_result est estimate_providers live live_providers
  show ?thesis by blast
qed

text \<open>
  An unresolvable name priced from the estimates, a resolvable one, a run of the live
  service, and five promises of which the second and the fourth are rejected.
\<close>

theorem pricing_always_resolves_witness:
  "quickAvailabilityCheck (Failed ''timeout'') = Resolved True
   \<and> (\<exists>r. estimateService 0 (Failed ''timeout'') ''example.com'' = Resolved r \<and> isAvailable r
        \<and> pricing_ar r = [checkCloudflare ''example.com'', checkNamecheap ''example.com'',
                          checkPorkbun ''example.com'', checkGoDaddy ''example.com'',
                          checkNamecom ''example.com'']
        \<and> map provider (pricing_ar r) = [''Cloudflare'', ''Namecheap'', ''Porkbun'', ''GoDaddy'', ''Name.com''])
   \<and> estimateService 0 (Resolved (Some \<lparr>Status = Some 0, Answer = Some 1\<rparr>)) ''example.com''
       = Resolved \<lparr>domain_ar = ''example.com'', isAvailable = False, pricing_ar = [], checkedAt = 0\<rparr>
   \<and> (\<exists>r. liveService 0 sampleReplies ''example.com'' = Resolved r \<and> isAvailable r
        \<and> map provider (pricing_ar r) = [''Cloudflare'', ''Namecheap'', ''Porkbun'', ''GoDaddy'', ''Name.com''])
   \<and> (\<exists>qs. checkAvailabilityAndPricing 0 ''example.com'' (Resolved True) samplePromises
              = Resolved \<lparr>domain_ar = ''example.com'', isAvailable = True, pricing_ar = qs, checkedAt = 0\<rparr>
        \<and> length qs = 5
        \<and> qs ! 0 = checkCloudflare ''example.com''
        \<and> qs ! 1 = \<lparr>provider = ''Namecheap'', available = False, registrationPrice = None,
                     renewalPrice = None, currency = ''USD'', url = [], error = Some ''socket hang up''\<rparr>
        \<and> qs ! 3 = \<lparr>provider = ''GoDaddy'', available = False, registrationPrice = None,
                     renewalPrice = None, currency = ''USD'', url = [],
                     error = Some ''Failed to check pricing''\<rparr>)"
proof -
  have q1: "quickAvailabilityCheck (Failed ''timeout'') = Resolved True"
    by (simp add: quickAvailabilityCheck_def asyncTry_def)
  have q2: "quickAvailabilityCheck (Resolved (Some \<lparr>Status = Some 0, Answer = Some 1\<rparr>)) = Resolved False"
    by (simp add: quickAvailabilityCheck_def asyncTry_def noRecords_def)
  have q3: "quickAvailabilityCheck_live (porkbunAvailability sampleReplies) (dnsResolve sampleReplies)
      = Resolved True"
    by (simp add: quickAvailabilityCheck_live_def checkPorkbunAvailability_def asyncTry_def
        sampleReplies_def)
  have nonnull: "\<forall>r \<in> set [cloudflarePromise samplePromises, namecheapPromise samplePromises,
        porkbunPromise samplePromises, godaddyPromise samplePromises, namecomPromise samplePromises].
        r \<noteq> Fulfilled None"
    by (simp add: samplePromises_def)
  have r0: "[cloudflarePromise samplePromises, namecheapPromise samplePromises,
        porkbunPromise samplePromises, godaddyPromise samplePromises, namecomPromise samplePromises] ! 0
        = Fulfilled (Some (checkCloudflare ''example.com''))"
    and r1: "[cloudflarePromise samplePromises, namecheapPromise samplePromises,
        porkbunPromise samplePromises, godaddyPromise samplePromises, namecomPromise samplePromises] ! 1
        = Rejected (Some ''socket hang up'')"
    and r3: "[cloudflarePromise samplePromises, namecheapPromise samplePromises,
        porkbunPromise samplePromises, godaddyPromise samplePromises, namecomPromise samplePromises] ! 3
        = Rejected None"
    by (simp_all add: samplePromises_def)
  note main = pricing_always_resolves
    [of "Failed ''timeout''" "porkbunAvailability sampleReplies" 0 "''example.com''" samplePromises
        sampleReplies]
  note registered = pricing_always_resolves
    [of "Resolved (Some \<lparr>Status = Some 0, Answer = Some 1\<rparr>)" "porkbunAvailability sampleReplies" 0
        "''example.com''" samplePromises sampleReplies]
  from main q1 have c1: "\<exists>r. estimateService 0 (Failed ''timeout'') ''example.com'' = Resolved r
        \<and> isAvailable r
        \<and> pricing_ar r = [checkCloudflare ''example.com'', checkNamecheap ''example.com'',
                          checkPorkbun ''example.com'', checkGoDaddy ''example.com'',
                          checkNamecom ''example.com'']
        \<and> map provider (pricing_ar r) = [''Cloudflare'', ''Namecheap'', ''Porkbun'', ''GoDaddy'', ''Name.com'']"
    by (auto simp: estimateService_def checkAvailabilityAndPricing_def)
  from registered q2 have c2: "estimateService 0 (Resolved (Some \<lparr>Status = Some 0, Answer = Some 1\<rparr>)) ''example.com''
       = Resolved \<lparr>domain_ar = ''example.com'', isAvailable = False, pricing_ar = [], checkedAt = 0\<rparr>"
    by (auto simp: estimateService_def checkAvailabilityAndPricing_def)
  from main q3 have c3: "\<exists>r. liveService 0 sampleReplies ''example.com'' = Resolved r \<and> isAvailable r
        \<and> map provider (pricing_ar r) = [''Cloudflare'', ''Namecheap'', ''Porkbun'', ''GoDaddy'', ''Name.com'']"
    by (auto simp: liveService_def checkAvailabilityAndPricing_def)
  from main nonnull obtain qs where
    qs: "checkAvailabilityAndPricing 0 ''example.com'' (Resolved True) samplePromises
              = Resolved \<lparr>domain_ar = ''example.com'', isAvailable = True, pricing_ar = qs, checkedAt = 0\<rparr>"
        "length qs = 5"
    and rej: "\<forall>i < 5. \<forall>reason.
                  [cloudflarePromise samplePromises, namecheapPromise samplePromises,
                   porkbunPromise samplePromises, godaddyPromise samplePromises,
                   namecomPromise samplePromises] ! i = Rejected reason \<longrightarrow>
                  qs ! i
                    = \<lparr>provider = [''Cloudflare'', ''Namecheap'', ''Porkbun'', ''GoDaddy'', ''Name.com''] ! i,
                       available = False, registrationPrice = None, renewalPrice = None,
                       currency = ''USD'', url = [],
                       error = Some (case reason of
                                       None \<Rightarrow> ''Failed to check pricing''
                                     | Some m \<Rightarrow> if m = [] then ''Failed to check pricing'' else m)\<rparr>"
    and ful: "\<forall>i < 5. \<forall>q.
                  [cloudflarePromise samplePromises, namecheapPromise samplePromises,
                   porkbunPromise samplePromises, godaddyPromise samplePromises,
                   namecomPromise samplePromises] ! i = Fulfilled (Some q) \<longrightarrow>
                  qs ! i = q"
    by blast
  from ful r0 have s0: "qs ! 0 = checkCloudflare ''example.com''" by simp
  from rej r1 have s1: "qs ! 1 = \<lparr>provider = ''Namecheap'', available = False, registrationPrice = None,
                     renewalPrice = None, currency = ''USD'', url = [], error = Some ''socket hang up''\<rparr>"
    by simp
  from rej r3 have s3: "qs ! 3 = \<lparr>provider = ''GoDaddy'', available = False, registrationPrice = None,
                     renewalPrice = None, currency = ''USD'', url = [],
                     error = Some ''Failed to check pricing''\<rparr>"
    by simp
  from q1 c1 c2 c3 qs s0 s1 s3 show ?thesis by blast
qed

end
